theory Spec2Isabelle
  imports Complex_Main "HOL-Library.Sublist"
begin

section \<open>GeneVector: the embedding model and its trainer\<close>

text \<open>
  A shallow embedding of \<^verbatim>\<open>src/genevector/model.py\<close>. Tensor entries and Python
  floats are modelled as real numbers (rounding is not modelled); the one float value
  without a real counterpart that the code produces by itself, the \<^verbatim>\<open>nan\<close> of a mean
  over nothing, is kept as a value of its own.
\<close>

subsection \<open>Errors and results\<close>

datatype error =
    IndexError | RuntimeError | ValueError | ZeroDivisionError | AttributeError
  | FileNotFoundError | UnpicklingError

definition ebind :: "error + 'a \<Rightarrow> ('a \<Rightarrow> error + 'b) \<Rightarrow> error + 'b" where
  "ebind r f = (case r of Inl e \<Rightarrow> Inl e | Inr x \<Rightarrow> f x)"

subsection \<open>Python values\<close>

text \<open>A Python float as the code meets it: a real number, or \<^verbatim>\<open>nan\<close>.\<close>

datatype fl = NaN | Fin real

fun fl_add :: "fl \<Rightarrow> real \<Rightarrow> fl" where
  "fl_add NaN y = NaN"
| "fl_add (Fin x) y = Fin (x + y)"

fun fl_sub :: "fl \<Rightarrow> fl \<Rightarrow> fl" where
  "fl_sub (Fin x) (Fin y) = Fin (x - y)"
| "fl_sub a b = NaN"

fun fl_abs :: "fl \<Rightarrow> fl" where
  "fl_abs NaN = NaN"
| "fl_abs (Fin x) = Fin \<bar>x\<bar>"

text \<open>Every comparison with \<^verbatim>\<open>nan\<close> is false.\<close>

fun fl_less :: "fl \<Rightarrow> real \<Rightarrow> bool" where
  "fl_less NaN t = False"
| "fl_less (Fin x) t = (x < t)"

text \<open>An argument that may be \<^verbatim>\<open>None\<close>, an \<^verbatim>\<open>int\<close> or a \<^verbatim>\<open>float\<close>.\<close>

datatype py_value = PyNone | PyInt int | PyFloat real

subsection \<open>Tensors\<close>

text \<open>
  A two-dimensional tensor is its shape and its entries; a one-dimensional tensor is a
  list. Index tensors hold integers.
\<close>

record tensor =
  nrows :: nat
  ncols :: nat
  entry :: "nat \<Rightarrow> nat \<Rightarrow> real"

text \<open>Broadcasting of one dimension: equal sizes, or one of them is 1.\<close>

definition bdim :: "nat \<Rightarrow> nat \<Rightarrow> error + nat" where
  "bdim a b = (if a = b then Inr a else if a = 1 then Inr b else if b = 1 then Inr a
               else Inl RuntimeError)"

definition bidx :: "nat \<Rightarrow> nat \<Rightarrow> nat" where
  "bidx n i = (if n = 1 then 0 else i)"

text \<open>\<^verbatim>\<open>nn.Embedding.__call__\<close>: one row of the table per index; an index outside
  the table raises.\<close>

definition embedding :: "tensor \<Rightarrow> int list \<Rightarrow> error + tensor" where
  "embedding w idx =
     (if list_all (\<lambda>i. 0 \<le> i \<and> i < int (nrows w)) idx
      then Inr \<lparr>nrows = length idx, ncols = ncols w,
                entry = (\<lambda>p k. entry w (nat (idx ! p)) k)\<rparr>
      else Inl IndexError)"

text \<open>\<^verbatim>\<open>a * b\<close>, elementwise with broadcasting.\<close>

definition mul :: "tensor \<Rightarrow> tensor \<Rightarrow> error + tensor" where
  "mul a b =
     ebind (bdim (nrows a) (nrows b)) (\<lambda>r.
     ebind (bdim (ncols a) (ncols b)) (\<lambda>c.
       Inr \<lparr>nrows = r, ncols = c,
            entry = (\<lambda>i k. entry a (bidx (nrows a) i) (bidx (ncols a) k)
                          * entry b (bidx (nrows b) i) (bidx (ncols b) k))\<rparr>))"

text \<open>\<^verbatim>\<open>torch.sum(t, dim=1)\<close>.\<close>

definition sum_dim1 :: "tensor \<Rightarrow> real list" where
  "sum_dim1 t = map (\<lambda>i. sum_list (map (entry t i) [0..<ncols t])) [0..<nrows t]"

subsection \<open>GeneVectorModel\<close>

record GeneVectorModel =
  num_embeddings :: nat
  embedding_dim :: nat
  wi :: tensor
  wj :: tensor
  placement :: string

text \<open>\<^verbatim>\<open>GeneVectorModel.forward\<close> (lines 52 to 56). It reads the two tables and
  returns a value; it has no state to return.\<close>

definition forward :: "GeneVectorModel \<Rightarrow> int list \<Rightarrow> int list \<Rightarrow> error + real list" where
  "forward m i_indices j_indices =
     ebind (embedding (wi m) i_indices) (\<lambda>w_i.
     ebind (embedding (wj m) j_indices) (\<lambda>w_j.
     ebind (mul w_i w_j) (\<lambda>x. Inr (sum_dim1 x))))"

text \<open>The shape both tables get at construction.\<close>

definition has_shape :: "GeneVectorModel \<Rightarrow> nat \<Rightarrow> nat \<Rightarrow> bool" where
  "has_shape m V D \<longleftrightarrow>
     nrows (wi m) = V \<and> ncols (wi m) = D \<and> nrows (wj m) = V \<and> ncols (wj m) = D"

subsection \<open>Tensor operations of the training step\<close>

text \<open>\<^verbatim>\<open>w.t()\<close>.\<close>

definition transposed :: "tensor \<Rightarrow> tensor" where
  "transposed a = \<lparr>nrows = ncols a, ncols = nrows a, entry = (\<lambda>i j. entry a j i)\<rparr>"

text \<open>\<^verbatim>\<open>torch.matmul\<close> of two matrices; the inner sizes must agree.\<close>

definition matmul :: "tensor \<Rightarrow> tensor \<Rightarrow> error + tensor" where
  "matmul a b =
     (if ncols a = nrows b
      then Inr \<lparr>nrows = nrows a, ncols = ncols b,
                entry = (\<lambda>i j. sum_list (map (\<lambda>k. entry a i k * entry b k j) [0..<ncols a]))\<rparr>
      else Inl RuntimeError)"

definition fill_diagonal :: "real \<Rightarrow> tensor \<Rightarrow> tensor" where
  "fill_diagonal v a = a\<lparr>entry := (\<lambda>i j. if i = j then v else entry a i j)\<rparr>"

text \<open>\<^verbatim>\<open>a ** n\<close>, elementwise.\<close>

definition pow :: "tensor \<Rightarrow> nat \<Rightarrow> tensor" where
  "pow a n = a\<lparr>entry := (\<lambda>i j. entry a i j ^ n)\<rparr>"

text \<open>\<^verbatim>\<open>a.sum()\<close>, over all entries.\<close>

definition sum_all :: "tensor \<Rightarrow> real" where
  "sum_all a = sum_list (map (\<lambda>i. sum_list (map (entry a i) [0..<ncols a])) [0..<nrows a])"

text \<open>\<^verbatim>\<open>torch.diag\<close> of a matrix.\<close>

definition diag :: "tensor \<Rightarrow> real list" where
  "diag a = map (\<lambda>i. entry a i i) [0..<min (nrows a) (ncols a)]"

text \<open>\<^verbatim>\<open>a - b\<close> on one-dimensional tensors, with broadcasting.\<close>

definition sub1 :: "real list \<Rightarrow> real list \<Rightarrow> error + real list" where
  "sub1 a b =
     ebind (bdim (length a) (length b)) (\<lambda>n.
       Inr (map (\<lambda>p. a ! bidx (length a) p - b ! bidx (length b) p) [0..<n]))"

text \<open>\<^verbatim>\<open>nn.MSELoss()\<close>: the mean of the squared differences; the mean over no
  element is \<^verbatim>\<open>nan\<close>.\<close>

definition mse_loss :: "real list \<Rightarrow> real list \<Rightarrow> error + fl" where
  "mse_loss outputs target =
     ebind (sub1 outputs target) (\<lambda>d.
       Inr (if d = [] then NaN
            else Fin (sum_list (map (\<lambda>x. x ^ 2) d) / real (length d))))"

text \<open>Lines 144 to 147 (\<^verbatim>\<open>#STEP2\<close>): the value \<^verbatim>\<open>t1\<close>.\<close>

definition step2_t1 :: "real \<Rightarrow> tensor \<Rightarrow> tensor \<Rightarrow> error + real" where
  "step2_t1 alpha w1 w2 =
     ebind (matmul w1 (transposed w2)) (\<lambda>wTw.
       Inr (alpha * sum_all (pow (fill_diagonal 0 wTw) 2)))"

text \<open>Lines 150 to 154 (\<^verbatim>\<open>#STEP3\<close>): the value \<^verbatim>\<open>t2\<close>.\<close>

definition step3_t2 :: "real \<Rightarrow> tensor \<Rightarrow> tensor \<Rightarrow> real list \<Rightarrow> error + real" where
  "step3_t2 beta w1 w2 ent0 =
     ebind (matmul w1 (transposed w2)) (\<lambda>wTw.
     ebind (sub1 (diag wTw) ent0) (\<lambda>t2.
       Inr (beta * sum_list (map (\<lambda>x. x ^ 2) t2))))"

subsection \<open>Strings and files\<close>

text \<open>\<^verbatim>\<open>'%d' % n\<close> for a length or a dimension.\<close>

function str_nat :: "nat \<Rightarrow> string" where
  "str_nat n = (if n < 10 then [''0123456789'' ! n]
                else str_nat (n div 10) @ [''0123456789'' ! (n mod 10)])"
  by pat_completeness auto
termination
  by (relation "measure id") auto

declare str_nat.simps [simp del]

text \<open>\<^verbatim>\<open>sep.join(xs)\<close>.\<close>

fun join :: "string \<Rightarrow> string list \<Rightarrow> string" where
  "join sep [] = []"
| "join sep [x] = x"
| "join sep (x # y # ys) = x @ sep @ join sep (y # ys)"

text \<open>\<^verbatim>\<open>s.replace(old, new)\<close>: every occurrence, found from left to right without
  overlap.\<close>

function replace :: "string \<Rightarrow> string \<Rightarrow> string \<Rightarrow> string" where
  "replace [] new s = new @ concat (map (\<lambda>c. c # new) s)"
| "replace (a # old) new [] = []"
| "replace (a # old) new (c # cs) =
     (if prefix (a # old) (c # cs)
      then new @ replace (a # old) new (drop (length (a # old)) (c # cs))
      else c # replace (a # old) new cs)"
  by pat_completeness auto
termination
  by (relation "measure (\<lambda>(old, new, s). length s)") auto

text \<open>What a path holds: a text file, or a pickled \<^verbatim>\<open>state_dict\<close> (the two weights).\<close>

datatype file_content = Text string | Blob tensor tensor

text \<open>The diagnostic lines (colour codes and number formatting left out).\<close>

datatype line = Epoch_line nat fl | Training_complete | Saving_model

record world =
  files :: "string \<Rightarrow> file_content option"
  stdout :: "line list"

text \<open>\<^verbatim>\<open>embedding[wid]\<close> on a numpy array: a negative index counts from the end.\<close>

definition np_row :: "tensor \<Rightarrow> int \<Rightarrow> error + real list" where
  "np_row a wid =
     (let n = int (nrows a);
          r = (if wid < 0 then n + wid else wid)
      in if 0 \<le> r \<and> r < n then Inr (map (entry a (nat r)) [0..<ncols a])
         else Inl IndexError)"

text \<open>The loop of lines 65 to 67, on the text written so far. A dict is the list of its
  items in insertion order (its keys are distinct).\<close>

fun write_rows ::
  "(real \<Rightarrow> string) \<Rightarrow> tensor \<Rightarrow> (int \<times> string) list \<Rightarrow> string \<Rightarrow> error + string" where
  "write_rows strf emb [] f = Inr f"
| "write_rows strf emb ((wid, w) # rest) f =
     ebind (np_row emb wid) (\<lambda>row.
       write_rows strf emb rest (f @ w @ '' '' @ join '' '' (map strf row) @ ''\<newline>''))"

text \<open>\<^verbatim>\<open>GeneVectorModel.save_embedding\<close> (lines 58 to 67); \<open>strf\<close> is \<^verbatim>\<open>str\<close> on a
  numpy float.\<close>

definition save_embedding ::
  "(real \<Rightarrow> string) \<Rightarrow> GeneVectorModel \<Rightarrow> (int \<times> string) list \<Rightarrow> string \<Rightarrow> int
     \<Rightarrow> (string \<Rightarrow> file_content option) \<Rightarrow> error + (string \<Rightarrow> file_content option)" where
  "save_embedding strf m id2word file_name layer fs =
     (let emb = (if layer = 0 then wi m else wj m)
      in ebind (write_rows strf emb id2word
                  (str_nat (length id2word) @ '' '' @ str_nat (embedding_dim m) @ ''\<newline>''))
           (\<lambda>f. Inr (fs(file_name \<mapsto> Text f))))"

subsection \<open>The dataset and the library\<close>

type_synonym batch = "real list \<times> int list \<times> int list"

text \<open>
  Modelled from the spec: the dataset collaborator (\<^verbatim>\<open>GeneVectorDataset\<close> and its
  \<^verbatim>\<open>data\<close>), whose code is not part of \<^verbatim>\<open>model.py\<close>. It gives the two mappings between
  names and indices, the pair count, the per-entity target diagonal \<^verbatim>\<open>_ent\<close>, and a batch
  generator yielding triples (target, index_i, index_j). The generator's order and
  content are not specified: \<open>sweeps ds n b\<close> is what its call number \<open>n\<close> yields for
  batch size \<open>b\<close>, and \<open>served\<close> counts the calls made.
\<close>

record dataset =
  gene2id :: "(string \<times> int) list"
  id2gene :: "(int \<times> string) list"
  num_pairs :: nat
  ent :: "real list"
  sweeps :: "nat \<Rightarrow> py_value \<Rightarrow> batch list"
  served :: nat

definition get_batches :: "dataset \<Rightarrow> py_value \<Rightarrow> batch list \<times> dataset" where
  "get_batches ds b = (sweeps ds (served ds) b, ds\<lparr>served := served ds + 1\<rparr>)"

text \<open>
  What the code calls and does not define: the dataset's preparation pass, the runtime's
  answer to \<^verbatim>\<open>torch.cuda.is_available()\<close>, the values drawn for the initial weights
  (arguments: \<^verbatim>\<open>init_ortho\<close>, \<^verbatim>\<open>gain\<close>, the table, row and column), the optimizer
  (its initial state; and \<^verbatim>\<open>backward\<close> followed by \<^verbatim>\<open>step\<close>, which gives the new state
  and the new entries of both tables, written in place), and \<^verbatim>\<open>str\<close> on a numpy float.
\<close>

record 'o externals =
  create_inputs_outputs :: "real \<Rightarrow> dataset \<Rightarrow> dataset"
  cuda_is_available :: bool
  initial_weight :: "bool \<Rightarrow> real \<Rightarrow> nat \<Rightarrow> nat \<Rightarrow> nat \<Rightarrow> real"
  Adadelta :: "GeneVectorModel \<Rightarrow> 'o"
  backward_step ::
    "'o \<Rightarrow> tensor \<Rightarrow> tensor \<Rightarrow> batch \<Rightarrow> real \<Rightarrow> real \<Rightarrow> real list
       \<Rightarrow> 'o \<times> (nat \<Rightarrow> nat \<Rightarrow> real) \<times> (nat \<Rightarrow> nat \<Rightarrow> real)"
  float_str :: "real \<Rightarrow> string"

subsection \<open>Construction\<close>

text \<open>\<^verbatim>\<open>GeneVectorModel.__init__\<close> (lines 39 to 50).\<close>

definition GeneVectorModel_init ::
  "'o externals \<Rightarrow> nat \<Rightarrow> nat \<Rightarrow> real \<Rightarrow> bool \<Rightarrow> GeneVectorModel" where
  "GeneVectorModel_init ext n d gain ortho =
     \<lparr>num_embeddings = n, embedding_dim = d,
      wi = \<lparr>nrows = n, ncols = d, entry = initial_weight ext ortho gain 0\<rparr>,
      wj = \<lparr>nrows = n, ncols = d, entry = initial_weight ext ortho gain 1\<rparr>,
      placement = ''cpu''\<rparr>"

text \<open>The trainer. \<^verbatim>\<open>self.loss\<close> is always \<^verbatim>\<open>nn.MSELoss()\<close> and has no field here;
  \<open>gnn\<close> is the attribute that \<^verbatim>\<open>load\<close> reads, which no line of the class assigns.\<close>

record 'o GeneVector =
  dataset :: dataset
  init_ortho :: bool
  output_file_name :: string
  emb_size :: nat
  emb_dimension :: nat
  batch_size :: py_value
  use_cuda :: bool
  model :: GeneVectorModel
  device :: string
  optimizer :: 'o
  epoch :: nat
  loss_values :: "fl list"
  mean_loss_values :: "fl list"
  gnn :: "GeneVectorModel option"

text \<open>\<^verbatim>\<open>GeneVector.__init__\<close> (lines 86 to 113).\<close>

definition GeneVector_init ::
  "'o externals \<Rightarrow> dataset \<Rightarrow> string \<Rightarrow> nat \<Rightarrow> py_value \<Rightarrow> real \<Rightarrow> real \<Rightarrow> string \<Rightarrow> bool
     \<Rightarrow> error + 'o GeneVector" where
  "GeneVector_init ext ds output_file emb_dim bsize gain c dev ortho =
     (let ds1 = create_inputs_outputs ext c ds;
          n = length (gene2id ds1);
          b = (if bsize = PyNone \<and> num_pairs ds1 \<noteq> 0 then PyInt (int (num_pairs ds1))
               else if bsize \<noteq> PyNone then bsize
               else PyFloat 1000000);
          m = GeneVectorModel_init ext n emb_dim gain ortho
      in if dev = ''cuda'' \<and> \<not> cuda_is_available ext then Inl ValueError
         else
           (let m1 = (if dev = ''cuda'' then m\<lparr>placement := ''cuda''\<rparr> else m)
            in Inr \<lparr>dataset = ds1, init_ortho = ortho, output_file_name = output_file,
                    emb_size = n, emb_dimension = emb_dim, batch_size = b,
                    use_cuda = cuda_is_available ext, model = m1, device = dev,
                    optimizer = Adadelta ext m1, epoch = 0, loss_values = [],
                    mean_loss_values = [], gnn = None\<rparr>))"

subsection \<open>Training\<close>

text \<open>The body of the batch loop (lines 135 to 160).\<close>

definition train_batch ::
  "'o externals \<Rightarrow> real \<Rightarrow> real \<Rightarrow> 'o GeneVector \<Rightarrow> batch \<Rightarrow> error + 'o GeneVector" where
  "train_batch ext alpha beta st b =
     (case b of (x_ij, i_idx, j_idx) \<Rightarrow>
        ebind (forward (model st) i_idx j_idx) (\<lambda>outputs.
        ebind (mse_loss outputs x_ij) (\<lambda>loss.
          (let w1 = wi (model st); w2 = wj (model st)
           in ebind (step2_t1 alpha w1 w2) (\<lambda>t1.
              ebind (step3_t2 beta w1 w2 (ent (dataset st))) (\<lambda>t2.
                (case backward_step ext (optimizer st) w1 w2 b alpha beta (ent (dataset st))
                 of (opt, new1, new2) \<Rightarrow>
                   Inr (st\<lparr>model := (model st)\<lparr>wi := w1\<lparr>entry := new1\<rparr>,
                                               wj := w2\<lparr>entry := new2\<rparr>\<rparr>,
                           optimizer := opt,
                           loss_values := loss_values st @ [fl_add (fl_add loss t1) t2]\<rparr>))))))))"

fun run_batches ::
  "'o externals \<Rightarrow> real \<Rightarrow> real \<Rightarrow> 'o GeneVector \<Rightarrow> batch list \<Rightarrow> error + 'o GeneVector" where
  "run_batches ext alpha beta st [] = Inr st"
| "run_batches ext alpha beta st (b # bs) =
     ebind (train_batch ext alpha beta st b) (\<lambda>st1. run_batches ext alpha beta st1 bs)"

text \<open>\<^verbatim>\<open>numpy.mean\<close> of a list of floats: \<^verbatim>\<open>nan\<close> on the empty list and on a list
  holding \<^verbatim>\<open>nan\<close>.\<close>

fun fl_sum :: "fl list \<Rightarrow> fl" where
  "fl_sum [] = Fin 0"
| "fl_sum (NaN # xs) = NaN"
| "fl_sum (Fin x # xs) = fl_add (fl_sum xs) x"

definition np_mean :: "fl list \<Rightarrow> fl" where
  "np_mean xs =
     (if xs = [] then NaN
      else (case fl_sum xs of NaN \<Rightarrow> NaN | Fin s \<Rightarrow> Fin (s / real (length xs))))"

text \<open>\<^verbatim>\<open>xs[-n:]\<close> for a positive \<open>n\<close>.\<close>

definition last_n :: "nat \<Rightarrow> 'a list \<Rightarrow> 'a list" where
  "last_n n xs = drop (length xs - n) xs"

text \<open>The two exports of lines 170 to 171 and of lines 177 to 178.\<close>

definition export_both ::
  "'o externals \<Rightarrow> 'o GeneVector \<Rightarrow> (string \<Rightarrow> file_content option)
     \<Rightarrow> error + (string \<Rightarrow> file_content option)" where
  "export_both ext st fs =
     ebind (save_embedding (float_str ext) (model st) (id2gene (dataset st))
              (output_file_name st) 0 fs) (\<lambda>fs1.
       save_embedding (float_str ext) (model st) (id2gene (dataset st))
         (replace ''.vec'' ''2.vec'' (output_file_name st)) 1 fs1)"

text \<open>One pass of the epoch loop up to the logging check (lines 133 to 167): the state,
  the output and \<^verbatim>\<open>curr_loss\<close>.\<close>

definition epoch_body ::
  "'o externals \<Rightarrow> int \<Rightarrow> real \<Rightarrow> real \<Rightarrow> 'o GeneVector \<times> world
     \<Rightarrow> error + 'o GeneVector \<times> world \<times> fl" where
  "epoch_body ext update_interval alpha beta sw =
     (case sw of (st, w) \<Rightarrow>
       (case get_batches (dataset st) (batch_size st) of (batches, ds) \<Rightarrow>
          ebind (run_batches ext alpha beta (st\<lparr>dataset := ds\<rparr>) batches) (\<lambda>st1.
            (let st2 = st1\<lparr>mean_loss_values :=
                            mean_loss_values st1 @ [np_mean (last_n 10 (loss_values st1))]\<rparr>;
                 curr_loss = np_mean (last_n 10 (loss_values st2))
             in if update_interval = 0 then Inl ZeroDivisionError
                else if int (epoch st2) mod update_interval = 0
                then Inr (st2, w\<lparr>stdout := stdout w @
                            [Epoch_line (epoch st2) (np_mean (last_n 30 (loss_values st2)))]\<rparr>,
                          curr_loss)
                else Inr (st2, w, curr_loss)))))"

text \<open>The test of line 168.\<close>

definition converged :: "py_value \<Rightarrow> fl \<Rightarrow> fl \<Rightarrow> bool" where
  "converged threshold curr_loss last_loss =
     (case threshold of
        PyFloat t \<Rightarrow> fl_less (fl_abs (fl_sub curr_loss last_loss)) t
      | _ \<Rightarrow> False)"

text \<open>The epoch loop (lines 132 to 178), by the number of passes left.\<close>

fun train_loop ::
  "'o externals \<Rightarrow> nat \<Rightarrow> py_value \<Rightarrow> int \<Rightarrow> real \<Rightarrow> real \<Rightarrow> fl \<Rightarrow> 'o GeneVector \<times> world
     \<Rightarrow> error + 'o GeneVector \<times> world" where
  "train_loop ext 0 threshold update_interval alpha beta last_loss (st, w) =
     ebind (export_both ext st (files w)) (\<lambda>fs.
       Inr (st, w\<lparr>stdout := stdout w @ [Saving_model], files := fs\<rparr>))"
| "train_loop ext (Suc n) threshold update_interval alpha beta last_loss (st, w) =
     ebind (epoch_body ext update_interval alpha beta (st, w)) (\<lambda>(st1, w1, curr_loss).
       if converged threshold curr_loss last_loss
       then ebind (export_both ext st1 (files w1)) (\<lambda>fs.
              Inr (st1, w1\<lparr>stdout := stdout w1 @ [Training_complete], files := fs\<rparr>))
       else train_loop ext n threshold update_interval alpha beta curr_loss
              (st1\<lparr>epoch := epoch st1 + 1\<rparr>, w1))"

text \<open>\<^verbatim>\<open>GeneVector.train\<close> (lines 116 to 178): \<^verbatim>\<open>range(1, epochs+1)\<close> has
  \<open>nat epochs\<close> elements, and \<^verbatim>\<open>last_loss\<close> starts at 0. \<^verbatim>\<open>epochs\<close> and
  \<^verbatim>\<open>update_interval\<close> are ints, as the docstring types them, so that
  \<^verbatim>\<open>int(update_interval)\<close> is the argument itself; \<^verbatim>\<open>threshold\<close> is whatever the
  caller passes, and only a float passes the test of line 168.\<close>

definition train ::
  "'o externals \<Rightarrow> int \<Rightarrow> py_value \<Rightarrow> int \<Rightarrow> real \<Rightarrow> real \<Rightarrow> 'o GeneVector \<times> world
     \<Rightarrow> error + 'o GeneVector \<times> world" where
  "train ext epochs threshold update_interval alpha beta sw =
     train_loop ext (nat epochs) threshold update_interval alpha beta (Fin 0) sw"

subsection \<open>Saving and loading the parameters\<close>

text \<open>\<^verbatim>\<open>GeneVector.save\<close> (lines 180 to 181).\<close>

definition save :: "'o GeneVector \<Rightarrow> string \<Rightarrow> world \<Rightarrow> world" where
  "save st filepath w =
     w\<lparr>files := (files w)(filepath \<mapsto> Blob (wi (model st)) (wj (model st)))\<rparr>"

text \<open>\<^verbatim>\<open>load_state_dict\<close>: the blob's tensors must have the shapes of the module's.\<close>

definition load_state_dict :: "GeneVectorModel \<Rightarrow> tensor \<Rightarrow> tensor \<Rightarrow> error + GeneVectorModel" where
  "load_state_dict g a b =
     (if nrows a = nrows (wi g) \<and> ncols a = ncols (wi g)
         \<and> nrows b = nrows (wj g) \<and> ncols b = ncols (wj g)
      then Inr (g\<lparr>wi := a, wj := b\<rparr>)
      else Inl RuntimeError)"

text \<open>\<^verbatim>\<open>GeneVector.load\<close> (lines 183 to 185). The attribute \<^verbatim>\<open>self.gnn\<close> is looked up
  before the file is read.\<close>

definition load :: "'o GeneVector \<Rightarrow> string \<Rightarrow> world \<Rightarrow> error + 'o GeneVector" where
  "load st filepath w =
     (case gnn st of
        None \<Rightarrow> Inl AttributeError
      | Some g \<Rightarrow>
         (case files w filepath of
            None \<Rightarrow> Inl FileNotFoundError
          | Some (Text u) \<Rightarrow> Inl UnpicklingError
          | Some (Blob a b) \<Rightarrow>
              ebind (load_state_dict g a b) (\<lambda>g1. Inr (st\<lparr>gnn := Some g1\<rparr>))))"

subsection \<open>The exported file, as the specification describes it\<close>

text \<open>The lines of a text: the pieces ended by a line feed, and what follows the last
  one if it is not empty.\<close>

fun split_lines :: "string \<Rightarrow> string \<Rightarrow> string list" where
  "split_lines acc [] = (if acc = [] then [] else [acc])"
| "split_lines acc (c # cs) =
     (if c = CHR ''\<newline>'' then acc # split_lines [] cs else split_lines (acc @ [c]) cs)"

definition lines_of :: "string \<Rightarrow> string list" where
  "lines_of s = split_lines [] s"

text \<open>
  The format of section 6 of the specification, in its words: a first line with the two
  sizes, then one line per entry of the mapping, in the mapping's order, holding the
  name and the values of the row of that entry's index. It is what \<open>save_embedding\<close> is
  compared with.
\<close>

definition vec_lines ::
  "(real \<Rightarrow> string) \<Rightarrow> tensor \<Rightarrow> nat \<Rightarrow> nat \<Rightarrow> (int \<times> string) list \<Rightarrow> string list" where
  "vec_lines strf emb n d id2word =
     (str_nat n @ '' '' @ str_nat d)
     # map (\<lambda>(wid, w).
              w @ '' '' @ join '' '' (map (\<lambda>k. strf (entry emb (nat wid) k)) [0..<ncols emb]))
         id2word"

definition vec_text ::
  "(real \<Rightarrow> string) \<Rightarrow> tensor \<Rightarrow> nat \<Rightarrow> nat \<Rightarrow> (int \<times> string) list \<Rightarrow> string" where
  "vec_text strf emb n d id2word =
     concat (map (\<lambda>l. l @ ''\<newline>'') (vec_lines strf emb n d id2word))"

text \<open>The ids of a mapping are vocabulary indices: positions of a table of \<open>V\<close> rows.\<close>

definition valid_ids :: "nat \<Rightarrow> (int \<times> string) list \<Rightarrow> bool" where
  "valid_ids V id2word = list_all (\<lambda>(wid, w). 0 \<le> wid \<and> wid < int V) id2word"

subsection \<open>The two exports, as the specification describes them\<close>

text \<open>
  Step 5 of the specification's \<^verbatim>\<open>train\<close>: the input-role table goes to the output
  path and the output-role table to the path derived from it, each in the format above.
\<close>

definition both_files ::
  "'o externals \<Rightarrow> 'o GeneVector \<Rightarrow> (string \<Rightarrow> file_content option)
     \<Rightarrow> (string \<Rightarrow> file_content option)" where
  "both_files ext st fs =
     fs(output_file_name st \<mapsto>
          Text (vec_text (float_str ext) (wi (model st)) (length (id2gene (dataset st)))
                  (embedding_dim (model st)) (id2gene (dataset st))),
        replace ''.vec'' ''2.vec'' (output_file_name st) \<mapsto>
          Text (vec_text (float_str ext) (wj (model st)) (length (id2gene (dataset st)))
                  (embedding_dim (model st)) (id2gene (dataset st))))"

subsection \<open>A small instance\<close>

text \<open>
  Two genes and two dimensions, the input table the identity matrix and the output
  table twice that, an optimizer that leaves the weights as they are, one batch per
  sweep whose targets the model already meets. The theorems below are applied to it.
\<close>

definition ex_ext :: "unit externals" where
  "ex_ext =
     \<lparr>create_inputs_outputs = (\<lambda>c ds. ds),
      cuda_is_available = False,
      initial_weight = (\<lambda>ortho gain t r k. if r = k then (if t = 0 then 1 else 2) else 0),
      Adadelta = (\<lambda>m. ()),
      backward_step = (\<lambda>opt w1 w2 b alpha beta e. (opt, entry w1, entry w2)),
      float_str = (\<lambda>x. if x = 0 then ''0.0'' else if x = 1 then ''1.0'' else ''2.0'')\<rparr>"

definition ex_ds :: dataset where
  "ex_ds =
     \<lparr>gene2id = [(''a'', 0), (''b'', 1)],
      id2gene = [(1, ''b''), (0, ''a'')],
      num_pairs = 2,
      ent = [2, 2],
      sweeps = (\<lambda>n b. [([0, 0], [0, 1], [1, 0])]),
      served = 0\<rparr>"

definition ex_world :: world where
  "ex_world = \<lparr>files = Map.empty, stdout = []\<rparr>"

definition ex_model :: GeneVectorModel where
  "ex_model = GeneVectorModel_init ex_ext 2 2 1 False"

text \<open>The trainer that \<open>GeneVector_init\<close> builds on this instance.\<close>

definition ex_trainer :: "unit GeneVector" where
  "ex_trainer =
     \<lparr>dataset = ex_ds, init_ortho = False, output_file_name = ''out.vec'',
      emb_size = 2, emb_dimension = 2, batch_size = PyInt 2, use_cuda = False,
      model = ex_model, device = ''cpu'', optimizer = (), epoch = 0,
      loss_values = [], mean_loss_values = [], gnn = None\<rparr>"

text \<open>A second dataset for the same model: its batch has targets the model misses, so
  that every batch has loss 4.\<close>

definition ex_ds2 :: dataset where
  "ex_ds2 = ex_ds\<lparr>sweeps := (\<lambda>n b. [([2, 2], [0, 1], [1, 0])])\<rparr>"

definition ex_trainer2 :: "unit GeneVector" where
  "ex_trainer2 = ex_trainer\<lparr>dataset := ex_ds2\<rparr>"

section \<open>Properties\<close>

lemma ebind_Inr [simp]: "ebind (Inr x) f = f x"
  by (simp add: ebind_def)

lemma ebind_Inl [simp]: "ebind (Inl e) f = Inl e"
  by (simp add: ebind_def)

lemma bdim_same [simp]: "bdim n n = Inr n"
  by (simp add: bdim_def)

text \<open>
  C1. On a model whose tables have shape V x D, for index sequences of equal length with
  entries in [0, V), \<open>forward\<close> returns for each position p the sum over k < D of
  W_i[i_p, k] * W_j[j_p, k]. The function returns only this list: the tables are read,
  not written.
\<close>

theorem forward_dot_product:
  assumes "has_shape m V D"
    and "length i_indices = length j_indices"
    and "list_all (\<lambda>i. 0 \<le> i \<and> i < int V) i_indices"
    and "list_all (\<lambda>j. 0 \<le> j \<and> j < int V) j_indices"
  shows "forward m i_indices j_indices =
           Inr (map (\<lambda>p. \<Sum>k<D. entry (wi m) (nat (i_indices ! p)) k
                                * entry (wj m) (nat (j_indices ! p)) k)
                    [0..<length i_indices])"
proof -
  have sh: "nrows (wi m) = V" "ncols (wi m) = D" "nrows (wj m) = V" "ncols (wj m) = D"
    using assms(1) by (simp_all add: has_shape_def)
  have bi: "bidx n i = i" if "i < n" for n i
    using that by (simp add: bidx_def)
  have sl: "sum_list (map f [0..<D]) = (\<Sum>k<D. f k)" for f :: "nat \<Rightarrow> real"
    by (simp add: interv_sum_list_conv_sum_set_nat atLeast0LessThan)
  show ?thesis
    using assms(2-4)
    by (simp add: forward_def embedding_def mul_def sum_dim1_def sh bi sl)
qed

theorem forward_dot_product_witness:
  "forward \<lparr>num_embeddings = 2, embedding_dim = 2,
            wi = \<lparr>nrows = 2, ncols = 2, entry = (\<lambda>r k. real (r + k))\<rparr>,
            wj = \<lparr>nrows = 2, ncols = 2, entry = (\<lambda>r k. real (2 * r + 1))\<rparr>,
            placement = ''cpu''\<rparr> [0, 1] [1, 1] = Inr [3, 9]"
proof -
  let ?m = "\<lparr>num_embeddings = 2, embedding_dim = 2,
            wi = \<lparr>nrows = 2, ncols = 2, entry = (\<lambda>r k. real (r + k))\<rparr>,
            wj = \<lparr>nrows = 2, ncols = 2, entry = (\<lambda>r k. real (2 * r + 1))\<rparr>,
            placement = ''cpu''\<rparr>"
  have h1: "has_shape ?m 2 2" by (simp add: has_shape_def)
  have h2: "length [0, 1 :: int] = length [1, 1 :: int]" by simp
  have h3: "list_all (\<lambda>i. 0 \<le> i \<and> i < int 2) [0, 1]" by simp
  have h4: "list_all (\<lambda>j. 0 \<le> j \<and> j < int 2) [1, 1]" by simp
  have up: "[0..<2] = [0, Suc 0]" by (simp add: upt_rec)
  show ?thesis
    using forward_dot_product [OF h1 h2 h3 h4]
    by (simp add: up lessThan_Suc numeral_2_eq_2)
qed

subsection \<open>The path of the second export\<close>

lemma not_prefix_vec_append:
  assumes "\<not> prefix ''.vec'' (c # q)"
  shows "\<not> prefix ''.vec'' (c # q @ ''.vec'')"
  using assms
  by (auto simp: prefix_append append_eq_Cons_conv Cons_eq_append_conv)

text \<open>Where \<^verbatim>\<open>.vec\<close> occurs only at the end of the path, \<^verbatim>\<open>replace\<close> swaps that
  trailing suffix.\<close>

lemma replace_trailing_vec:
  "\<not> sublist ''.vec'' q \<Longrightarrow> replace ''.vec'' ''2.vec'' (q @ ''.vec'') = q @ ''2.vec''"
proof (induction q)
  case Nil
  show ?case by simp
next
  case (Cons c q)
  from Cons.prems have np: "\<not> prefix ''.vec'' (c # q)" and ns: "\<not> sublist ''.vec'' q"
    by (simp_all add: sublist_Cons_right)
  have np2: "prefix ''.vec'' (c # q @ ''.vec'') = False"
    using not_prefix_vec_append [OF np] by simp
  have "replace ''.vec'' ''2.vec'' (c # q @ ''.vec'') = c # replace ''.vec'' ''2.vec'' (q @ ''.vec'')"
    by (simp only: replace.simps np2 if_False)
  with Cons.IH [OF ns] show ?case by simp
qed

text \<open>
  C4 (the code departs from the claim). Lines 171 and 178 pass
  \<^verbatim>\<open>output_file_name.replace(".vec","2.vec")\<close> as the path of the output-role export, and
  \<^verbatim>\<open>replace\<close> rewrites every occurrence, not the trailing one alone. For the output path
  \<^verbatim>\<open>a.vec.d/out.vec\<close> the output-role path is \<^verbatim>\<open>a2.vec.d/out2.vec\<close>, in another
  directory, and not \<^verbatim>\<open>a.vec.d/out2.vec\<close>, the path with its trailing \<^verbatim>\<open>.vec\<close>
  replaced.
\<close>

theorem output_role_path_replaces_all:
  "replace ''.vec'' ''2.vec'' (''a.vec.d/out'' @ ''.vec'') = ''a2.vec.d/out2.vec'' \<and>
   replace ''.vec'' ''2.vec'' (''a.vec.d/out'' @ ''.vec'') \<noteq> ''a.vec.d/out'' @ ''2.vec''"
  by simp

subsection \<open>The exported file\<close>

lemma np_row_valid:
  "0 \<le> wid \<Longrightarrow> wid < int (nrows a) \<Longrightarrow> np_row a wid = Inr (map (entry a (nat wid)) [0..<ncols a])"
  by (simp add: np_row_def)

lemma write_rows_valid:
  "valid_ids (nrows emb) ids \<Longrightarrow>
   write_rows strf emb ids f =
     Inr (f @ concat (map (\<lambda>l. l @ ''\<newline>'')
        (map (\<lambda>(wid, w). w @ '' '' @ join '' '' (map (\<lambda>k. strf (entry emb (nat wid) k)) [0..<ncols emb])) ids)))"
proof (induction ids arbitrary: f)
  case Nil
  show ?case by simp
next
  case (Cons x ids)
  obtain wid w where x: "x = (wid, w)" by (cases x)
  from Cons.prems x have v: "0 \<le> wid" "wid < int (nrows emb)" and rest: "valid_ids (nrows emb) ids"
    by (simp_all add: valid_ids_def)
  show ?case
    using Cons.IH [OF rest] by (simp add: x np_row_valid [OF v] comp_def)
qed

lemma save_embedding_valid:
  assumes "valid_ids (nrows (if layer = 0 then wi m else wj m)) id2word"
  shows "save_embedding strf m id2word file_name layer fs =
     Inr (fs(file_name \<mapsto> Text (vec_text strf (if layer = 0 then wi m else wj m)
                                  (length id2word) (embedding_dim m) id2word)))"
  using write_rows_valid [OF assms]
  by (simp add: save_embedding_def vec_text_def vec_lines_def Let_def)

lemma split_lines_no_newline:
  "CHR ''\<newline>'' \<notin> set l \<Longrightarrow> split_lines acc (l @ rest) = split_lines (acc @ l) rest"
  by (induction l arbitrary: acc) auto

lemma lines_of_unlines_aux:
  "\<forall>l \<in> set ls. CHR ''\<newline>'' \<notin> set l \<Longrightarrow>
     split_lines [] (concat (map (\<lambda>l. l @ ''\<newline>'') ls)) = ls"
proof (induction ls)
  case Nil
  show ?case by simp
next
  case (Cons l ls)
  then have "CHR ''\<newline>'' \<notin> set l" by simp
  from split_lines_no_newline [OF this, of "[]"] Cons show ?case by simp
qed

lemma str_nat_no_newline: "CHR ''\<newline>'' \<notin> set (str_nat n)"
proof (induction n rule: str_nat.induct)
  case (1 n)
  have d: "''0123456789'' ! k \<noteq> CHR ''\<newline>''" if "k < 10" for k
  proof -
    from that have "k \<in> {0,1,2,3,4,5,6,7,8,9}" by auto
    then show ?thesis by auto
  qed
  show ?case
  proof (cases "n < 10")
    case True
    then show ?thesis using d [of n] by (subst str_nat.simps) auto
  next
    case False
    with 1 have "CHR ''\<newline>'' \<notin> set (str_nat (n div 10))" by simp
    moreover have "n mod 10 < 10" by simp
    ultimately show ?thesis using False d [of "n mod 10"]
      by (subst str_nat.simps) auto
  qed
qed

lemma join_no_newline:
  "\<forall>x \<in> set xs. CHR ''\<newline>'' \<notin> set x \<Longrightarrow> CHR ''\<newline>'' \<notin> set (join '' '' xs)"
  by (induction "'' ''" xs rule: join.induct) auto


lemma vec_lines_no_newline:
  assumes "list_all (\<lambda>(wid, w). CHR ''\<newline>'' \<notin> set w) id2word"
    and "\<And>x. CHR ''\<newline>'' \<notin> set (strf x)"
  shows "\<forall>l \<in> set (vec_lines strf emb n d id2word). CHR ''\<newline>'' \<notin> set l"
proof -
  have row: "CHR ''\<newline>'' \<notin> set (join '' '' (map (\<lambda>k. strf (entry emb r k)) ks))" for r ks
    by (rule join_no_newline) (simp add: assms(2))
  show ?thesis
    using assms(1) row
    by (auto simp: vec_lines_def str_nat_no_newline list_all_iff)
qed

lemma lines_of_vec_text:
  assumes "list_all (\<lambda>(wid, w). CHR ''\<newline>'' \<notin> set w) id2word"
    and "\<And>x. CHR ''\<newline>'' \<notin> set (strf x)"
  shows "lines_of (vec_text strf emb n d id2word) = vec_lines strf emb n d id2word"
  unfolding lines_of_def vec_text_def
  by (rule lines_of_unlines_aux) (rule vec_lines_no_newline [OF assms])

text \<open>
  C3. An id-to-name mapping has one entry per vocabulary entity: its ids are positions
  of the table and its names are single-line. For such a mapping of size V, on a model
  whose tables have the shape V x D of its fields, \<open>save_embedding\<close> writes a text of
  exactly V + 1 lines: the first is "V D", and line p + 1 is the name of the p-th entry
  of the mapping, in the mapping's own order, followed by the D values of the row of
  that entry's id, all separated by single spaces.
\<close>

theorem export_file_format:
  assumes "has_shape m (num_embeddings m) (embedding_dim m)"
    and "length id2word = num_embeddings m"
    and "valid_ids (num_embeddings m) id2word"
    and "list_all (\<lambda>(wid, w). CHR ''\<newline>'' \<notin> set w) id2word"
    and "\<And>x. CHR ''\<newline>'' \<notin> set (strf x)"
  shows "\<exists>body.
     save_embedding strf m id2word file_name layer fs = Inr (fs(file_name \<mapsto> Text body))
     \<and> length (lines_of body) = num_embeddings m + 1
     \<and> lines_of body ! 0 = str_nat (num_embeddings m) @ '' '' @ str_nat (embedding_dim m)
     \<and> (\<forall>p < length id2word.
          lines_of body ! (p + 1) =
            snd (id2word ! p) @ '' '' @
            join '' '' (map (\<lambda>k. strf (entry (if layer = 0 then wi m else wj m)
                                          (nat (fst (id2word ! p))) k))
                         [0..<embedding_dim m]))"
proof -
  define emb where "emb = (if layer = 0 then wi m else wj m)"
  define body where "body = vec_text strf emb (length id2word) (embedding_dim m) id2word"
  have sh: "nrows emb = num_embeddings m" "ncols emb = embedding_dim m"
    using assms(1) by (simp_all add: has_shape_def emb_def)
  have v: "valid_ids (nrows (if layer = 0 then wi m else wj m)) id2word"
    using assms(3) sh(1) by (simp add: emb_def)
  have s: "save_embedding strf m id2word file_name layer fs = Inr (fs(file_name \<mapsto> Text body))"
    unfolding body_def emb_def by (rule save_embedding_valid [OF v])
  have l: "lines_of body = vec_lines strf emb (length id2word) (embedding_dim m) id2word"
    unfolding body_def by (rule lines_of_vec_text [OF assms(4,5)])
  have n: "length (lines_of body) = num_embeddings m + 1"
    by (simp add: l vec_lines_def assms(2))
  have h: "lines_of body ! 0 = str_nat (num_embeddings m) @ '' '' @ str_nat (embedding_dim m)"
    by (simp add: l vec_lines_def assms(2))
  have r: "lines_of body ! (p + 1) =
            snd (id2word ! p) @ '' '' @
            join '' '' (map (\<lambda>k. strf (entry emb (nat (fst (id2word ! p))) k))
                         [0..<embedding_dim m])" if "p < length id2word" for p
    using that by (simp add: l vec_lines_def sh(2) case_prod_unfold)
  from s n h r show ?thesis unfolding emb_def by blast
qed

lemma upt2: "[0..<2] = [0, Suc 0]" by (simp add: upt_rec)

theorem export_file_format_witness:
  "has_shape ex_model (num_embeddings ex_model) (embedding_dim ex_model)
   \<and> length [(1::int, ''b''), (0, ''a'')] = num_embeddings ex_model
   \<and> valid_ids (num_embeddings ex_model) [(1, ''b''), (0, ''a'')]
   \<and> list_all (\<lambda>(wid, w). CHR ''\<newline>'' \<notin> set w) [(1::int, ''b''), (0, ''a'')]
   \<and> (\<exists>body.
     save_embedding (float_str ex_ext) ex_model [(1, ''b''), (0, ''a'')] ''out.vec'' 0 Map.empty
       = Inr [''out.vec'' \<mapsto> Text body]
     \<and> length (lines_of body) = 3
     \<and> lines_of body ! 0 = ''2 2''
     \<and> lines_of body ! 1 = ''b 0.0 1.0''
     \<and> lines_of body ! 2 = ''a 1.0 0.0'')"
proof -
  let ?ids = "[(1::int, ''b''), (0, ''a'')]"
  have h1: "has_shape ex_model (num_embeddings ex_model) (embedding_dim ex_model)"
    by (simp add: has_shape_def ex_model_def GeneVectorModel_init_def)
  have h2: "length ?ids = num_embeddings ex_model"
    by (simp add: ex_model_def GeneVectorModel_init_def)
  have h3: "valid_ids (num_embeddings ex_model) ?ids"
    by (simp add: valid_ids_def ex_model_def GeneVectorModel_init_def)
  have h4: "list_all (\<lambda>(wid, w). CHR ''\<newline>'' \<notin> set w) ?ids"
    by simp
  have h5: "\<And>x. CHR ''\<newline>'' \<notin> set (float_str ex_ext x)"
    by (simp add: ex_ext_def)
  have s2: "str_nat 2 = ''2''"
    by (subst str_nat.simps) simp
  obtain body where
    b1: "save_embedding (float_str ex_ext) ex_model ?ids ''out.vec'' 0 Map.empty
           = Inr [''out.vec'' \<mapsto> Text body]"
    and b2: "length (lines_of body) = num_embeddings ex_model + 1"
    and b3: "lines_of body ! 0 = str_nat (num_embeddings ex_model) @ '' '' @ str_nat (embedding_dim ex_model)"
    and b4: "\<forall>p < length ?ids.
          lines_of body ! (p + 1) =
            snd (?ids ! p) @ '' '' @
            join '' '' (map (\<lambda>k. float_str ex_ext (entry (if (0::int) = 0 then wi ex_model else wj ex_model)
                                          (nat (fst (?ids ! p))) k))
                         [0..<embedding_dim ex_model])"
    using export_file_format [where strf = "float_str ex_ext" and file_name = "''out.vec''"
          and layer = 0 and fs = Map.empty,
        OF h1 h2 h3 h4 h5] by blast
  have c2: "length (lines_of body) = 3"
    using b2 by (simp add: ex_model_def GeneVectorModel_init_def)
  have c3: "lines_of body ! 0 = ''2 2''"
    using b3 by (simp add: ex_model_def GeneVectorModel_init_def s2)
  have c4: "lines_of body ! 1 = ''b 0.0 1.0''"
    using b4 [rule_format, of 0]
    by (simp add: ex_model_def GeneVectorModel_init_def ex_ext_def upt2)
  have c5: "lines_of body ! 2 = ''a 1.0 0.0''"
    using b4 [rule_format, of 1]
    by (simp add: ex_model_def GeneVectorModel_init_def ex_ext_def upt2 numeral_2_eq_2)
  from h1 h2 h3 h4 b1 c2 c3 c4 c5 show ?thesis by blast
qed

subsection \<open>What a batch, an epoch and a run keep\<close>

lemma ebind_eq_Inr: "ebind r f = Inr y \<longleftrightarrow> (\<exists>x. r = Inr x \<and> f x = Inr y)"
  by (cases r) simp_all

lemma train_batch_Inr:
  assumes "train_batch ext alpha beta st b = Inr st1"
  shows "dataset st1 = dataset st \<and> epoch st1 = epoch st \<and> batch_size st1 = batch_size st
     \<and> output_file_name st1 = output_file_name st
     \<and> length (loss_values st1) = Suc (length (loss_values st))
     \<and> has_shape (model st1) V D = has_shape (model st) V D"
proof -
  obtain x_ij i_idx j_idx where b: "b = (x_ij, i_idx, j_idx)"
    by (cases b) auto
  obtain opt new1 new2 where
    s: "backward_step ext (optimizer st) (wi (model st)) (wj (model st)) (x_ij, i_idx, j_idx)
          alpha beta (ent (dataset st)) = (opt, new1, new2)"
    by (cases "backward_step ext (optimizer st) (wi (model st)) (wj (model st)) (x_ij, i_idx, j_idx)
          alpha beta (ent (dataset st))") auto
  from assms obtain l where
    "st1 = st\<lparr>model := (model st)\<lparr>wi := (wi (model st))\<lparr>entry := new1\<rparr>,
                                    wj := (wj (model st))\<lparr>entry := new2\<rparr>\<rparr>,
              optimizer := opt, loss_values := loss_values st @ [l]\<rparr>"
    by (auto simp: train_batch_def b s ebind_eq_Inr Let_def)
  then show ?thesis by (simp add: has_shape_def)
qed

lemma run_batches_Inr:
  assumes "run_batches ext alpha beta st bs = Inr st1"
  shows "dataset st1 = dataset st \<and> epoch st1 = epoch st \<and> batch_size st1 = batch_size st
     \<and> output_file_name st1 = output_file_name st
     \<and> length (loss_values st1) = length (loss_values st) + length bs
     \<and> has_shape (model st1) V D = has_shape (model st) V D"
  using assms
proof (induction bs arbitrary: st)
  case Nil
  then show ?case by simp
next
  case (Cons b bs)
  from Cons.prems obtain st0 where
    b: "train_batch ext alpha beta st b = Inr st0" and r: "run_batches ext alpha beta st0 bs = Inr st1"
    by (auto simp: ebind_eq_Inr)
  from Cons.IH [OF r] train_batch_Inr [OF b, of V D] show ?case by simp
qed

lemma epoch_body_Inr:
  assumes "epoch_body ext ui alpha beta (st, w) = Inr (st1, w1, curr_loss)"
  shows "dataset st1 = (dataset st)\<lparr>served := served (dataset st) + 1\<rparr>"
    and "epoch st1 = epoch st"
    and "batch_size st1 = batch_size st"
    and "output_file_name st1 = output_file_name st"
    and "length (loss_values st1) =
           length (loss_values st) + length (sweeps (dataset st) (served (dataset st)) (batch_size st))"
    and "has_shape (model st1) V D = has_shape (model st) V D"
    and "curr_loss = np_mean (last_n 10 (loss_values st1))"
    and "files w1 = files w"
    and "ui \<noteq> 0"
    and "stdout w1 = (if int (epoch st) mod ui = 0
                      then stdout w @ [Epoch_line (epoch st) (np_mean (last_n 30 (loss_values st1)))]
                      else stdout w)"
proof -
  let ?bs = "sweeps (dataset st) (served (dataset st)) (batch_size st)"
  let ?st0 = "st\<lparr>dataset := (dataset st)\<lparr>served := served (dataset st) + 1\<rparr>\<rparr>"
  from assms obtain st0 where
    r: "run_batches ext alpha beta ?st0 ?bs = Inr st0"
    and e: "(let st2 = st0\<lparr>mean_loss_values :=
                            mean_loss_values st0 @ [np_mean (last_n 10 (loss_values st0))]\<rparr>;
                 curr_loss = np_mean (last_n 10 (loss_values st2))
             in if ui = 0 then Inl ZeroDivisionError
                else if int (epoch st2) mod ui = 0
                then Inr (st2, w\<lparr>stdout := stdout w @
                            [Epoch_line (epoch st2) (np_mean (last_n 30 (loss_values st2)))]\<rparr>,
                          curr_loss)
                else Inr (st2, w, curr_loss)) = Inr (st1, w1, curr_loss)"
    by (auto simp: epoch_body_def get_batches_def ebind_eq_Inr)
  note i = run_batches_Inr [OF r, of V D]
  from e have nz: "ui \<noteq> 0" by (auto simp: Let_def split: if_splits)
  from e nz have
    st1: "st1 = st0\<lparr>mean_loss_values :=
                            mean_loss_values st0 @ [np_mean (last_n 10 (loss_values st0))]\<rparr>"
    by (auto simp: Let_def split: if_splits)
  show "dataset st1 = (dataset st)\<lparr>served := served (dataset st) + 1\<rparr>"
    using i by (simp add: st1)
  show "epoch st1 = epoch st" using i by (simp add: st1)
  show "batch_size st1 = batch_size st" using i by (simp add: st1)
  show "output_file_name st1 = output_file_name st" using i by (simp add: st1)
  show "length (loss_values st1) = length (loss_values st) + length ?bs"
    using i by (simp add: st1)
  show "has_shape (model st1) V D = has_shape (model st) V D"
    using i by (simp add: st1 has_shape_def)
  show "curr_loss = np_mean (last_n 10 (loss_values st1))"
    using e nz by (auto simp: Let_def st1 split: if_splits)
  show "files w1 = files w"
    using e nz by (auto simp: Let_def split: if_splits)
  show "ui \<noteq> 0" by (rule nz)
  have "epoch st0 = epoch st" using i by simp
  then show "stdout w1 = (if int (epoch st) mod ui = 0
                      then stdout w @ [Epoch_line (epoch st) (np_mean (last_n 30 (loss_values st1)))]
                      else stdout w)"
    using e nz by (auto simp: Let_def st1 split: if_splits)
qed


lemma export_both_valid:
  assumes "has_shape (model st) V D" and "valid_ids V (id2gene (dataset st))"
  shows "export_both ext st fs = Inr (both_files ext st fs)"
proof -
  have v0: "valid_ids (nrows (if (0::int) = 0 then wi (model st) else wj (model st)))
              (id2gene (dataset st))"
    using assms by (simp add: has_shape_def)
  have v1: "valid_ids (nrows (if (1::int) = 0 then wi (model st) else wj (model st)))
              (id2gene (dataset st))"
    using assms by (simp add: has_shape_def)
  show ?thesis
    unfolding export_both_def both_files_def
    by (simp add: save_embedding_valid [OF v0] save_embedding_valid [OF v1])
qed

lemma train_loop_Inr:
  assumes "train_loop ext n thr ui alpha beta last_loss (st, w) = Inr (st2, w2)"
  shows "has_shape (model st2) V D = has_shape (model st) V D
     \<and> served (dataset st) \<le> served (dataset st2)
     \<and> dataset st2 = (dataset st)\<lparr>served := served (dataset st2)\<rparr>
     \<and> batch_size st2 = batch_size st
     \<and> length (loss_values st2) = length (loss_values st)
          + (\<Sum>k = served (dataset st)..<served (dataset st2).
               length (sweeps (dataset st) k (batch_size st)))
     \<and> prefix (stdout w) (stdout w2)"
  using assms
proof (induction n arbitrary: st w last_loss)
  case 0
  then have "st2 = st" and "prefix (stdout w) (stdout w2)"
    by (auto simp: ebind_eq_Inr)
  then show ?case by simp
next
  case (Suc n)
  from Suc.prems obtain st1 w1 c where
    e: "epoch_body ext ui alpha beta (st, w) = Inr (st1, w1, c)"
    and r: "(if converged thr c last_loss
             then ebind (export_both ext st1 (files w1)) (\<lambda>fs.
                    Inr (st1, w1\<lparr>stdout := stdout w1 @ [Training_complete], files := fs\<rparr>))
             else train_loop ext n thr ui alpha beta c (st1\<lparr>epoch := epoch st1 + 1\<rparr>, w1))
            = Inr (st2, w2)"
    by (auto simp: ebind_eq_Inr)
  note b = epoch_body_Inr [OF e]
  have pw: "prefix (stdout w) (stdout w1)"
    by (simp add: b(10))
  let ?s = "served (dataset st)"
  let ?g = "\<lambda>k. length (sweeps (dataset st) k (batch_size st))"
  show ?case
  proof (cases "converged thr c last_loss")
    case True
    with r have st2: "st2 = st1" and w2: "stdout w2 = stdout w1 @ [Training_complete]"
      by (auto simp: ebind_eq_Inr)
    have "prefix (stdout w) (stdout w2)"
      using pw by (auto simp: w2 prefix_def)
    moreover have "dataset st2 = (dataset st)\<lparr>served := ?s + 1\<rparr>"
      by (simp add: st2 b(1))
    moreover have "length (loss_values st2) = length (loss_values st) + ?g ?s"
      by (simp add: st2 b(5))
    ultimately show ?thesis
      by (simp add: st2 b(3) b(6) [of V D])
  next
    case False
    with r have t: "train_loop ext n thr ui alpha beta c (st1\<lparr>epoch := epoch st1 + 1\<rparr>, w1) = Inr (st2, w2)"
      by simp
    note ih = Suc.IH [OF t]
    from ih have le: "?s + 1 \<le> served (dataset st2)"
      by (simp add: b(1))
    from ih have ds: "dataset st2 = (dataset st)\<lparr>served := served (dataset st2)\<rparr>"
      by (simp add: b(1))
    from ih have len: "length (loss_values st2) = length (loss_values st) + ?g ?s
          + (\<Sum>k = Suc ?s..<served (dataset st2). ?g k)"
      by (simp add: b(1) b(3) b(5))
    have "(\<Sum>k = ?s..<served (dataset st2). ?g k) = ?g ?s + (\<Sum>k = Suc ?s..<served (dataset st2). ?g k)"
      using le by (simp add: sum.atLeast_Suc_lessThan)
    with len have len2: "length (loss_values st2) = length (loss_values st)
          + (\<Sum>k = ?s..<served (dataset st2). ?g k)"
      by simp
    from ih pw have "prefix (stdout w) (stdout w2)"
      by (auto intro: prefix_order.trans)
    moreover from ih have "has_shape (model st2) V D = has_shape (model st) V D"
      by (simp add: b(6) [of V D])
    moreover from ih have "batch_size st2 = batch_size st"
      by (simp add: b(3))
    ultimately show ?thesis
      using le ds len2 by simp
  qed
qed

subsection \<open>The small instance, evaluated\<close>

lemma ex_shape: "has_shape ex_model 2 2"
  by (simp add: has_shape_def ex_model_def GeneVectorModel_init_def)

lemma ex_init:
  "GeneVector_init ex_ext ex_ds ''out.vec'' 2 PyNone 1 100 ''cpu'' False = Inr ex_trainer"
  by (simp add: GeneVector_init_def ex_trainer_def ex_model_def ex_ext_def ex_ds_def Let_def
      GeneVectorModel_init_def numeral_2_eq_2)

lemma ex_forward: "forward ex_model [0, 1] [1, 0] = Inr [0, 0]"
  by (simp add: forward_def embedding_def mul_def sum_dim1_def ex_model_def
      GeneVectorModel_init_def ex_ext_def upt2 bidx_def)

lemma ex_mse: "mse_loss [0, 0] [0, 0] = Inr (Fin 0)"
  by (simp add: mse_loss_def sub1_def upt2 bidx_def)

lemma ex_t1: "step2_t1 alpha (wi ex_model) (wj ex_model) = Inr 0"
  by (simp add: step2_t1_def matmul_def transposed_def sum_all_def pow_def fill_diagonal_def
      ex_model_def GeneVectorModel_init_def ex_ext_def upt2)

lemma ex_t2: "step3_t2 beta (wi ex_model) (wj ex_model) [2, 2] = Inr 0"
  by (simp add: step3_t2_def matmul_def transposed_def diag_def sub1_def bidx_def bdim_def
      ex_model_def GeneVectorModel_init_def ex_ext_def upt2)

lemma ex_batch:
  assumes "model st = ex_model" and "ent (dataset st) = [2, 2]"
  shows "train_batch ex_ext alpha beta st ([0, 0], [0, 1], [1, 0])
           = Inr (st\<lparr>loss_values := loss_values st @ [Fin 0]\<rparr>)"
proof -
  have b: "backward_step ex_ext opt w1 w2 b alpha beta e = (opt, entry w1, entry w2)"
    for opt :: unit and w1 w2 b e
    by (simp add: ex_ext_def)
  show ?thesis
    by (simp add: train_batch_def assms ex_forward ex_mse ex_t1 ex_t2 b)
qed


lemma ex_epoch:
  assumes "model st = ex_model" and "dataset st = ex_ds\<lparr>served := k\<rparr>" and "ui \<noteq> 0"
  shows "epoch_body ex_ext ui alpha beta (st, w) =
     Inr (st\<lparr>dataset := ex_ds\<lparr>served := k + 1\<rparr>,
             loss_values := loss_values st @ [Fin 0],
             mean_loss_values :=
               mean_loss_values st @ [np_mean (last_n 10 (loss_values st @ [Fin 0]))]\<rparr>,
          (if int (epoch st) mod ui = 0
           then w\<lparr>stdout := stdout w @
                    [Epoch_line (epoch st) (np_mean (last_n 30 (loss_values st @ [Fin 0])))]\<rparr>
           else w),
          np_mean (last_n 10 (loss_values st @ [Fin 0])))"
proof -
  let ?st = "st\<lparr>dataset := ex_ds\<lparr>served := k + 1\<rparr>\<rparr>"
  have m: "model ?st = ex_model" and e: "ent (dataset ?st) = [2, 2]"
    by (simp_all add: assms(1) ex_ds_def)
  have g: "get_batches (dataset st) (batch_size st)
             = ([([0, 0], [0, 1], [1, 0])], ex_ds\<lparr>served := k + 1\<rparr>)"
    by (simp add: get_batches_def assms(2) ex_ds_def)
  have r: "run_batches ex_ext alpha beta ?st [([0, 0], [0, 1], [1, 0])]
             = Inr (?st\<lparr>loss_values := loss_values ?st @ [Fin 0]\<rparr>)"
    by (simp only: run_batches.simps ex_batch [OF m e] ebind_Inr)
  show ?thesis
    by (simp only: epoch_body_def prod.case g r ebind_Inr)
      (simp add: Let_def assms(3))
qed

lemma ex_dataset: "dataset ex_trainer = ex_ds\<lparr>served := 0\<rparr>"
  by (simp add: ex_trainer_def ex_ds_def)

lemma ex_model_of: "model ex_trainer = ex_model"
  by (simp add: ex_trainer_def)

text \<open>The first epoch of the instance.\<close>

lemma ex_epoch1:
  "epoch_body ex_ext 20 alpha beta (ex_trainer, ex_world) =
     Inr (ex_trainer\<lparr>dataset := ex_ds\<lparr>served := 1\<rparr>, loss_values := [Fin 0],
                      mean_loss_values := [Fin 0]\<rparr>,
          ex_world\<lparr>stdout := [Epoch_line 0 (Fin 0)]\<rparr>, Fin 0)"
  by (subst ex_epoch [OF ex_model_of ex_dataset])
    (simp_all add: ex_trainer_def ex_world_def np_mean_def last_n_def)

lemma ex_out2: "replace ''.vec'' ''2.vec'' ''out.vec'' = ''out2.vec''"
  by simp

lemma ex_files:
  assumes "model st = ex_model" and "id2gene (dataset st) = [(1, ''b''), (0, ''a'')]"
    and "output_file_name st = ''out.vec''"
  shows "both_files ex_ext st fs =
           fs(''out.vec'' \<mapsto> Text ''2 2\<newline>b 0.0 1.0\<newline>a 1.0 0.0\<newline>'',
              ''out2.vec'' \<mapsto> Text ''2 2\<newline>b 0.0 2.0\<newline>a 2.0 0.0\<newline>'')"
proof -
  have s2: "str_nat 2 = ''2''"
    by (subst str_nat.simps) simp
  have s2': "str_nat (Suc (Suc 0)) = ''2''"
    by (subst str_nat.simps) simp
  show ?thesis
    unfolding both_files_def assms ex_out2
    by (simp add: vec_text_def vec_lines_def ex_model_def GeneVectorModel_init_def ex_ext_def
        upt2 s2 s2')
qed

text \<open>
  C6. With \<^verbatim>\<open>epochs = 0\<close> the loop body never runs: \<open>train\<close> returns the trainer as it
  was (tables, optimizer state and loss trace untouched, no batch requested), prints the
  saving message and writes both export files, which hold the weights the trainer
  started with. Stated for a trainer whose tables have their shape and whose
  \<^verbatim>\<open>id2gene\<close> ids are vocabulary indices.
\<close>

theorem train_zero_epochs:
  assumes "has_shape (model st) V D" and "valid_ids V (id2gene (dataset st))"
  shows "train ext 0 threshold ui alpha beta (st, w) =
     Inr (st, w\<lparr>stdout := stdout w @ [Saving_model], files := both_files ext st (files w)\<rparr>)"
  by (simp add: train_def export_both_valid [OF assms])

lemma ex_valid: "valid_ids 2 (id2gene (dataset ex_trainer))"
  by (simp add: valid_ids_def ex_trainer_def ex_ds_def)

lemma ex_trainer_shape: "has_shape (model ex_trainer) 2 2"
  using ex_shape by (simp add: ex_trainer_def)

theorem train_zero_epochs_witness:
  "has_shape (model ex_trainer) 2 2 \<and> valid_ids 2 (id2gene (dataset ex_trainer))
   \<and> train ex_ext 0 PyNone 20 0 0 (ex_trainer, ex_world) =
     Inr (ex_trainer,
          \<lparr>files = [''out.vec'' \<mapsto> Text ''2 2\<newline>b 0.0 1.0\<newline>a 1.0 0.0\<newline>'',
                    ''out2.vec'' \<mapsto> Text ''2 2\<newline>b 0.0 2.0\<newline>a 2.0 0.0\<newline>''],
           stdout = [Saving_model]\<rparr>)"
proof -
  have f: "both_files ex_ext ex_trainer (files ex_world) =
      [''out.vec'' \<mapsto> Text ''2 2\<newline>b 0.0 1.0\<newline>a 1.0 0.0\<newline>'',
       ''out2.vec'' \<mapsto> Text ''2 2\<newline>b 0.0 2.0\<newline>a 2.0 0.0\<newline>'']"
    by (subst ex_files) (simp_all add: ex_trainer_def ex_ds_def ex_world_def)
  show ?thesis
    using train_zero_epochs [OF ex_trainer_shape ex_valid, of ex_ext PyNone 20 0 0 ex_world]
      ex_trainer_shape ex_valid
    by (simp add: f) (simp add: ex_world_def)
qed


text \<open>
  C9. A trainer fresh from \<open>GeneVector_init\<close> has both tables of shape
  \<^verbatim>\<open>emb_size\<close> x \<^verbatim>\<open>emb_dimension\<close> and an empty loss trace.
  From any trainer whose tables both have shape V x D: after one batch both tables
  still have shape V x D, every index below V is a row of both, and the loss trace is
  one longer; and when a call of \<open>train\<close> returns, the same holds of the tables and
  the loss trace has grown by exactly the number of batches the dataset yielded during
  the call (the sweeps numbered from \<open>served\<close> before to \<open>served\<close> after). Being
  relative to the trainer the call starts from, the count adds up over calls.
\<close>

theorem shapes_and_loss_trace:
  assumes "has_shape (model st) V D"
  shows "(\<forall>st0. GeneVector_init ext ds out_file d bsize gain c dev ortho = Inr st0 \<longrightarrow>
            has_shape (model st0) (emb_size st0) (emb_dimension st0) \<and> loss_values st0 = [])
       \<and> (\<forall>st1. train_batch ext alpha beta st b = Inr st1 \<longrightarrow>
            has_shape (model st1) V D
            \<and> (\<forall>i<V. i < nrows (wi (model st1)) \<and> i < nrows (wj (model st1)))
            \<and> length (loss_values st1) = length (loss_values st) + 1)
       \<and> (\<forall>st2 w2. train ext epochs threshold ui alpha beta (st, w) = Inr (st2, w2) \<longrightarrow>
            has_shape (model st2) V D
            \<and> (\<forall>i<V. i < nrows (wi (model st2)) \<and> i < nrows (wj (model st2)))
            \<and> length (loss_values st2) = length (loss_values st)
                 + (\<Sum>k = served (dataset st)..<served (dataset st2).
                      length (sweeps (dataset st) k (batch_size st))))"
proof -
  have rows: "\<forall>i<V. i < nrows (wi m) \<and> i < nrows (wj m)" if "has_shape m V D" for m
    using that by (simp add: has_shape_def)
  have one: "has_shape (model st1) V D
            \<and> (\<forall>i<V. i < nrows (wi (model st1)) \<and> i < nrows (wj (model st1)))
            \<and> length (loss_values st1) = length (loss_values st) + 1"
    if "train_batch ext alpha beta st b = Inr st1" for st1
  proof -
    note i = train_batch_Inr [OF that, of V D]
    from i assms have "has_shape (model st1) V D" by simp
    with rows i show ?thesis by simp
  qed
  have run: "has_shape (model st2) V D
            \<and> (\<forall>i<V. i < nrows (wi (model st2)) \<and> i < nrows (wj (model st2)))
            \<and> length (loss_values st2) = length (loss_values st)
                 + (\<Sum>k = served (dataset st)..<served (dataset st2).
                      length (sweeps (dataset st) k (batch_size st)))"
    if "train ext epochs threshold ui alpha beta (st, w) = Inr (st2, w2)" for st2 w2
  proof -
    from that have
      "train_loop ext (nat epochs) threshold ui alpha beta (Fin 0) (st, w) = Inr (st2, w2)"
      by (simp add: train_def)
    note i = train_loop_Inr [OF this, of V D]
    from i assms have "has_shape (model st2) V D" by simp
    with rows i show ?thesis by simp
  qed
  have fresh: "has_shape (model st0) (emb_size st0) (emb_dimension st0) \<and> loss_values st0 = []"
    if "GeneVector_init ext ds out_file d bsize gain c dev ortho = Inr st0" for st0
    using that
    by (auto simp: GeneVector_init_def GeneVectorModel_init_def has_shape_def Let_def
        split: if_splits)
  from fresh one run show ?thesis by blast
qed

text \<open>The epoch loop stops at the first pass whose \<^verbatim>\<open>curr_loss\<close> is within the
  threshold of the one before it. \<open>S j\<close>, \<open>W j\<close> and \<open>C j\<close> are the trainer, the world
  and \<^verbatim>\<open>curr_loss\<close> at the end of pass \<open>j\<close>; \<open>C 0\<close> is the \<^verbatim>\<open>last_loss\<close> the loop
  starts with.\<close>

lemma stops_at_first_convergence:
  fixes S :: "nat \<Rightarrow> 'o GeneVector" and W :: "nat \<Rightarrow> world" and C :: "nat \<Rightarrow> fl"
  assumes "1 \<le> k" and "k \<le> n"
    and "epoch_body ext ui alpha beta (st, w) = Inr (S 1, W 1, C 1)"
    and "\<forall>j. 1 \<le> j \<and> j < k \<longrightarrow>
           epoch_body ext ui alpha beta ((S j)\<lparr>epoch := epoch (S j) + 1\<rparr>, W j)
             = Inr (S (j + 1), W (j + 1), C (j + 1))"
    and "\<forall>j. 1 \<le> j \<and> j < k \<longrightarrow> \<not> fl_less (fl_abs (fl_sub (C j) (C (j - 1)))) t"
    and "fl_less (fl_abs (fl_sub (C k) (C (k - 1)))) t"
    and "has_shape (model st) V D"
    and "valid_ids V (id2gene (dataset st))"
  shows "train_loop ext n (PyFloat t) ui alpha beta (C 0) (st, w) =
           Inr (S k, (W k)\<lparr>stdout := stdout (W k) @ [Training_complete],
                            files := both_files ext (S k) (files (W k))\<rparr>)
       \<and> C k = np_mean (last_n 10 (loss_values (S k)))
       \<and> served (dataset (S k)) = served (dataset st) + k
       \<and> epoch (S k) = epoch st + (k - 1)"
  using assms
proof (induction k arbitrary: n st w S W C)
  case 0
  then show ?case by simp
next
  case (Suc k)
  from Suc.prems(2) obtain m where n: "n = Suc m" and km: "k \<le> m"
    by (cases n) auto
  note e = Suc.prems(3)
  note b = epoch_body_Inr [OF e]
  have sh: "has_shape (model (S 1)) V D"
    using Suc.prems(7) b(6) [of V D] by blast
  have ids: "valid_ids V (id2gene (dataset (S 1)))"
    using Suc.prems(8) b(1) by simp
  show ?case
  proof (cases "k = 0")
    case True
    with Suc.prems(6) have c: "converged (PyFloat t) (C 1) (C 0)"
      by (simp add: converged_def)
    show ?thesis
      using b(7) b(2) b(1) e c export_both_valid [OF sh ids, of ext "files (W 1)"]
      by (simp add: True n)
  next
    case False
    then have k1: "1 \<le> k" by simp
    from Suc.prems(5) k1 have nc: "\<not> converged (PyFloat t) (C 1) (C 0)"
      by (auto simp: converged_def dest: spec [of _ 1])
    let ?st = "(S 1)\<lparr>epoch := epoch (S 1) + 1\<rparr>"
    let ?S = "\<lambda>j. S (j + 1)" and ?W = "\<lambda>j. W (j + 1)" and ?C = "\<lambda>j. C (j + 1)"
    have e1: "epoch_body ext ui alpha beta (?st, W 1) = Inr (?S 1, ?W 1, ?C 1)"
      using Suc.prems(4) k1 by (auto dest: spec [of _ 1])
    have later: "\<forall>j. 1 \<le> j \<and> j < k \<longrightarrow>
           epoch_body ext ui alpha beta ((?S j)\<lparr>epoch := epoch (?S j) + 1\<rparr>, ?W j)
             = Inr (?S (j + 1), ?W (j + 1), ?C (j + 1))"
      using Suc.prems(4) by auto
    have no: "\<forall>j. 1 \<le> j \<and> j < k \<longrightarrow> \<not> fl_less (fl_abs (fl_sub (?C j) (?C (j - 1)))) t"
    proof (intro allI impI)
      fix j assume j: "1 \<le> j \<and> j < k"
      then have "1 \<le> j + 1 \<and> j + 1 < Suc k" by simp
      with Suc.prems(5) have "\<not> fl_less (fl_abs (fl_sub (C (j + 1)) (C (j + 1 - 1)))) t"
        by blast
      with j show "\<not> fl_less (fl_abs (fl_sub (?C j) (?C (j - 1)))) t" by simp
    qed
    have yes: "fl_less (fl_abs (fl_sub (?C k) (?C (k - 1)))) t"
      using Suc.prems(6) k1 by simp
    have sh': "has_shape (model ?st) V D" and ids': "valid_ids V (id2gene (dataset ?st))"
      using sh ids by simp_all
    note ih = Suc.IH [of m ?st "W 1" ?S ?W ?C, OF k1 km e1 later no yes sh' ids']
    have "train_loop ext n (PyFloat t) ui alpha beta (C 0) (st, w) =
            train_loop ext m (PyFloat t) ui alpha beta (C 1) (?st, W 1)"
      using e nc by (simp add: n)
    with ih show ?thesis
      using k1 b(1) b(2) by simp
  qed
qed

text \<open>
  C2, as amended. Let \<open>train\<close> run with a float threshold \<open>t\<close>, and let \<open>S j\<close>,
  \<open>W j\<close> and \<open>C j\<close> be the trainer, the world and \<^verbatim>\<open>curr_loss\<close> at the end of epoch
  \<open>j\<close> = 1, ..., k, each epoch starting from the end of the one before with the epoch
  counter advanced, and \<open>C 0 = 0\<close>. \<open>C j\<close> is the mean of the last 10 loss values. If
  epoch k is the first with \<open>\<bar>C k - C (k - 1)\<bar> < t\<close>, each epoch being compared with
  the \<^verbatim>\<open>curr_loss\<close> of the epoch before it and the first with 0, then \<open>train\<close> returns
  at the end of epoch k, whatever the number of epochs asked for: the result is \<open>S k\<close>
  itself (k sweeps requested, the counter advanced k - 1 times), with the completion
  message printed and both tables exported, the input-role one to the output path and
  the output-role one to the derived path.
\<close>

theorem convergence_stops_training:
  fixes S :: "nat \<Rightarrow> 'o GeneVector" and W :: "nat \<Rightarrow> world" and C :: "nat \<Rightarrow> fl"
  assumes "C 0 = Fin 0"
    and "1 \<le> k" and "int k \<le> epochs"
    and "epoch_body ext ui alpha beta (st, w) = Inr (S 1, W 1, C 1)"
    and "\<forall>j. 1 \<le> j \<and> j < k \<longrightarrow>
           epoch_body ext ui alpha beta ((S j)\<lparr>epoch := epoch (S j) + 1\<rparr>, W j)
             = Inr (S (j + 1), W (j + 1), C (j + 1))"
    and "\<forall>j. 1 \<le> j \<and> j < k \<longrightarrow> \<not> fl_less (fl_abs (fl_sub (C j) (C (j - 1)))) t"
    and "fl_less (fl_abs (fl_sub (C k) (C (k - 1)))) t"
    and "has_shape (model st) V D"
    and "valid_ids V (id2gene (dataset st))"
  shows "train ext epochs (PyFloat t) ui alpha beta (st, w) =
           Inr (S k, (W k)\<lparr>stdout := stdout (W k) @ [Training_complete],
                            files := both_files ext (S k) (files (W k))\<rparr>)
       \<and> (\<forall>j. 1 \<le> j \<and> j \<le> k \<longrightarrow> C j = np_mean (last_n 10 (loss_values (S j))))
       \<and> served (dataset (S k)) = served (dataset st) + k
       \<and> epoch (S k) = epoch st + (k - 1)"
proof -
  have kn: "k \<le> nat epochs"
    using assms(3) by simp
  have means: "C j = np_mean (last_n 10 (loss_values (S j)))" if "1 \<le> j" and "j \<le> k" for j
  proof (cases "j = 1")
    case True
    from epoch_body_Inr(7) [OF assms(4)] show ?thesis
      by (simp only: True)
  next
    case False
    with that obtain i where i: "j = i + 1" and "1 \<le> i \<and> i < k"
      by (cases j) auto
    with assms(5) have
      "epoch_body ext ui alpha beta ((S i)\<lparr>epoch := epoch (S i) + 1\<rparr>, W i)
         = Inr (S (i + 1), W (i + 1), C (i + 1))"
      by blast
    from epoch_body_Inr(7) [OF this] show ?thesis
      by (simp only: i)
  qed
  from stops_at_first_convergence [OF assms(2) kn assms(4-9)] assms(1) means
  show ?thesis by (simp add: train_def)
qed

text \<open>
  C10. A trainer fresh from \<open>GeneVector_init\<close> has epoch counter 0. When \<open>train\<close>
  runs on it with a positive interval and at least one epoch and returns, the first pass
  of the loop ended with the counter still 0 and printed the diagnostic line for epoch
  0 with the mean of the last 30 loss values, whatever the interval; everything else
  the call printed comes after that line.
\<close>

theorem first_epoch_is_logged:
  assumes "GeneVector_init ext ds out_file d bsize gain c dev ortho = Inr st"
    and "0 < ui"
    and "0 < epochs"
    and "train ext epochs threshold ui alpha beta (st, w) = Inr (st2, w2)"
  shows "epoch st = 0
     \<and> (\<exists>st1 w1 curr_loss rest.
           epoch_body ext ui alpha beta (st, w) = Inr (st1, w1, curr_loss)
           \<and> epoch st1 = 0
           \<and> stdout w1 = stdout w @ [Epoch_line 0 (np_mean (last_n 30 (loss_values st1)))]
           \<and> stdout w2 = stdout w1 @ rest)"
proof -
  have e0: "epoch st = 0"
    using assms(1) by (auto simp: GeneVector_init_def Let_def split: if_splits)
  from assms(3) obtain m where m: "nat epochs = Suc m"
    by (cases "nat epochs") auto
  from assms(4) have t: "train_loop ext (Suc m) threshold ui alpha beta (Fin 0) (st, w) = Inr (st2, w2)"
    by (simp add: train_def m)
  then obtain st1 w1 cl where
    e: "epoch_body ext ui alpha beta (st, w) = Inr (st1, w1, cl)"
    and r: "(if converged threshold cl (Fin 0)
             then ebind (export_both ext st1 (files w1)) (\<lambda>fs.
                    Inr (st1, w1\<lparr>stdout := stdout w1 @ [Training_complete], files := fs\<rparr>))
             else train_loop ext m threshold ui alpha beta cl (st1\<lparr>epoch := epoch st1 + 1\<rparr>, w1))
            = Inr (st2, w2)"
    by (auto simp: ebind_eq_Inr)
  note b = epoch_body_Inr [OF e]
  have l: "stdout w1 = stdout w @ [Epoch_line 0 (np_mean (last_n 30 (loss_values st1)))]"
    by (simp add: b(10) e0)
  have "prefix (stdout w1) (stdout w2)"
  proof (cases "converged threshold cl (Fin 0)")
    case True
    with r show ?thesis by (auto simp: ebind_eq_Inr)
  next
    case False
    with r have "train_loop ext m threshold ui alpha beta cl (st1\<lparr>epoch := epoch st1 + 1\<rparr>, w1)
                   = Inr (st2, w2)"
      by simp
    from train_loop_Inr [OF this, of 0 0] show ?thesis by simp
  qed
  then obtain rest where "stdout w2 = stdout w1 @ rest"
    by (auto simp: prefix_def)
  with e l e0 b(2) show ?thesis by auto
qed


text \<open>The second instance, evaluated.\<close>

lemma ex2_mse: "mse_loss [0, 0] [2, 2] = Inr (Fin 4)"
  by (simp add: mse_loss_def sub1_def upt2 bidx_def)

lemma ex2_batch:
  assumes "model st = ex_model" and "ent (dataset st) = [2, 2]"
  shows "train_batch ex_ext alpha beta st ([2, 2], [0, 1], [1, 0])
           = Inr (st\<lparr>loss_values := loss_values st @ [Fin 4]\<rparr>)"
proof -
  have b: "backward_step ex_ext opt w1 w2 b alpha beta e = (opt, entry w1, entry w2)"
    for opt :: unit and w1 w2 b e
    by (simp add: ex_ext_def)
  show ?thesis
    by (simp add: train_batch_def assms ex_forward ex2_mse ex_t1 ex_t2 b)
qed

lemma ex2_epoch:
  assumes "model st = ex_model" and "dataset st = ex_ds2\<lparr>served := k\<rparr>" and "ui \<noteq> 0"
  shows "epoch_body ex_ext ui alpha beta (st, w) =
     Inr (st\<lparr>dataset := ex_ds2\<lparr>served := k + 1\<rparr>,
             loss_values := loss_values st @ [Fin 4],
             mean_loss_values :=
               mean_loss_values st @ [np_mean (last_n 10 (loss_values st @ [Fin 4]))]\<rparr>,
          (if int (epoch st) mod ui = 0
           then w\<lparr>stdout := stdout w @
                    [Epoch_line (epoch st) (np_mean (last_n 30 (loss_values st @ [Fin 4])))]\<rparr>
           else w),
          np_mean (last_n 10 (loss_values st @ [Fin 4])))"
proof -
  let ?st = "st\<lparr>dataset := ex_ds2\<lparr>served := k + 1\<rparr>\<rparr>"
  have m: "model ?st = ex_model" and e: "ent (dataset ?st) = [2, 2]"
    by (simp_all add: assms(1) ex_ds2_def ex_ds_def)
  have g: "get_batches (dataset st) (batch_size st)
             = ([([2, 2], [0, 1], [1, 0])], ex_ds2\<lparr>served := k + 1\<rparr>)"
    by (simp add: get_batches_def assms(2) ex_ds2_def ex_ds_def)
  have r: "run_batches ex_ext alpha beta ?st [([2, 2], [0, 1], [1, 0])]
             = Inr (?st\<lparr>loss_values := loss_values ?st @ [Fin 4]\<rparr>)"
    by (simp only: run_batches.simps ex2_batch [OF m e] ebind_Inr)
  show ?thesis
    by (simp only: epoch_body_def prod.case g r ebind_Inr)
      (simp add: Let_def assms(3))
qed

lemma ex2_epoch1:
  "epoch_body ex_ext 20 alpha beta (ex_trainer2, ex_world) =
     Inr (ex_trainer2\<lparr>dataset := ex_ds2\<lparr>served := 1\<rparr>, loss_values := [Fin 4],
                       mean_loss_values := [Fin 4]\<rparr>,
          ex_world\<lparr>stdout := [Epoch_line 0 (Fin 4)]\<rparr>, Fin 4)"
  by (subst ex2_epoch [where k = 0])
    (simp_all add: ex_trainer2_def ex_trainer_def ex_ds2_def ex_ds_def ex_world_def
      np_mean_def last_n_def)

lemma ex2_epoch2:
  "epoch_body ex_ext 20 alpha beta
     (ex_trainer2\<lparr>dataset := ex_ds2\<lparr>served := 1\<rparr>, loss_values := [Fin 4],
                  mean_loss_values := [Fin 4], epoch := 1\<rparr>,
      ex_world\<lparr>stdout := [Epoch_line 0 (Fin 4)]\<rparr>) =
     Inr (ex_trainer2\<lparr>dataset := ex_ds2\<lparr>served := 2\<rparr>, epoch := 1,
                       loss_values := [Fin 4, Fin 4], mean_loss_values := [Fin 4, Fin 4]\<rparr>,
          ex_world\<lparr>stdout := [Epoch_line 0 (Fin 4)]\<rparr>, Fin 4)"
  by (subst ex2_epoch [where k = 1])
    (simp_all add: ex_trainer2_def ex_trainer_def ex_ds2_def ex_ds_def ex_world_def
      np_mean_def last_n_def)

theorem convergence_stops_training_witness:
  "epoch_body ex_ext 20 0 0 (ex_trainer2, ex_world) =
     Inr (ex_trainer2\<lparr>dataset := ex_ds2\<lparr>served := 1\<rparr>, loss_values := [Fin 4],
                       mean_loss_values := [Fin 4]\<rparr>,
          ex_world\<lparr>stdout := [Epoch_line 0 (Fin 4)]\<rparr>, Fin 4)
   \<and> \<not> fl_less (fl_abs (fl_sub (Fin 4) (Fin 0))) (1 / 2)
   \<and> epoch_body ex_ext 20 0 0
        (ex_trainer2\<lparr>dataset := ex_ds2\<lparr>served := 1\<rparr>, loss_values := [Fin 4],
                     mean_loss_values := [Fin 4], epoch := 1\<rparr>,
         ex_world\<lparr>stdout := [Epoch_line 0 (Fin 4)]\<rparr>) =
     Inr (ex_trainer2\<lparr>dataset := ex_ds2\<lparr>served := 2\<rparr>, epoch := 1,
                       loss_values := [Fin 4, Fin 4], mean_loss_values := [Fin 4, Fin 4]\<rparr>,
          ex_world\<lparr>stdout := [Epoch_line 0 (Fin 4)]\<rparr>, Fin 4)
   \<and> fl_less (fl_abs (fl_sub (Fin 4) (Fin 4))) (1 / 2)
   \<and> has_shape (model ex_trainer2) 2 2
   \<and> valid_ids 2 (id2gene (dataset ex_trainer2))
   \<and> train ex_ext 5 (PyFloat (1 / 2)) 20 0 0 (ex_trainer2, ex_world) =
       Inr (ex_trainer2\<lparr>dataset := ex_ds2\<lparr>served := 2\<rparr>, epoch := 1,
                         loss_values := [Fin 4, Fin 4], mean_loss_values := [Fin 4, Fin 4]\<rparr>,
            \<lparr>files = [''out.vec'' \<mapsto> Text ''2 2\<newline>b 0.0 1.0\<newline>a 1.0 0.0\<newline>'',
                      ''out2.vec'' \<mapsto> Text ''2 2\<newline>b 0.0 2.0\<newline>a 2.0 0.0\<newline>''],
             stdout = [Epoch_line 0 (Fin 4), Training_complete]\<rparr>)"
proof -
  let ?s1 = "ex_trainer2\<lparr>dataset := ex_ds2\<lparr>served := 1\<rparr>, loss_values := [Fin 4],
                       mean_loss_values := [Fin 4]\<rparr>"
  let ?s2 = "ex_trainer2\<lparr>dataset := ex_ds2\<lparr>served := 2\<rparr>, epoch := 1,
                       loss_values := [Fin 4, Fin 4], mean_loss_values := [Fin 4, Fin 4]\<rparr>"
  let ?w1 = "ex_world\<lparr>stdout := [Epoch_line 0 (Fin 4)]\<rparr>"
  define S where "S = (\<lambda>j :: nat. if j \<le> 1 then ?s1 else ?s2)"
  define W where "W = (\<lambda>j :: nat. ?w1)"
  define C where "C = (\<lambda>j :: nat. if j = 0 then Fin 0 else Fin 4)"
  have e1: "epoch_body ex_ext 20 0 0 (ex_trainer2, ex_world) = Inr (?s1, ?w1, Fin 4)"
    by (rule ex2_epoch1)
  have e2: "epoch_body ex_ext 20 0 0 (?s1\<lparr>epoch := 1\<rparr>, ?w1) = Inr (?s2, ?w1, Fin 4)"
    using ex2_epoch2 [of 0 0] by (simp add: ex_trainer2_def ex_trainer_def)
  have n1: "\<not> fl_less (fl_abs (fl_sub (Fin 4) (Fin 0))) (1 / 2)"
    by simp
  have y2: "fl_less (fl_abs (fl_sub (Fin 4) (Fin 4))) (1 / 2)"
    by simp
  have sh: "has_shape (model ex_trainer2) 2 2"
    using ex_shape by (simp add: ex_trainer2_def ex_trainer_def)
  have ids: "valid_ids 2 (id2gene (dataset ex_trainer2))"
    by (simp add: valid_ids_def ex_trainer2_def ex_ds2_def ex_ds_def)
  have h1: "C 0 = Fin 0" by (simp add: C_def)
  have h2: "1 \<le> (2 :: nat)" and h3: "int 2 \<le> 5" by simp_all
  have h4: "epoch_body ex_ext 20 0 0 (ex_trainer2, ex_world) = Inr (S 1, W 1, C 1)"
    using e1 by (simp add: S_def W_def C_def)
  have h5: "\<forall>j. 1 \<le> j \<and> j < 2 \<longrightarrow>
           epoch_body ex_ext 20 0 0 ((S j)\<lparr>epoch := epoch (S j) + 1\<rparr>, W j)
             = Inr (S (j + 1), W (j + 1), C (j + 1))"
  proof (intro allI impI)
    fix j :: nat assume "1 \<le> j \<and> j < 2"
    then have j: "j = 1" by simp
    show "epoch_body ex_ext 20 0 0 ((S j)\<lparr>epoch := epoch (S j) + 1\<rparr>, W j)
             = Inr (S (j + 1), W (j + 1), C (j + 1))"
      using e2 by (simp add: j S_def W_def C_def ex_trainer2_def ex_trainer_def)
  qed
  have h6: "\<forall>j. 1 \<le> j \<and> j < 2 \<longrightarrow> \<not> fl_less (fl_abs (fl_sub (C j) (C (j - 1)))) (1 / 2)"
  proof (intro allI impI)
    fix j :: nat assume "1 \<le> j \<and> j < 2"
    then have j: "j = 1" by simp
    show "\<not> fl_less (fl_abs (fl_sub (C j) (C (j - 1)))) (1 / 2)"
      by (simp add: j C_def)
  qed
  have h7: "fl_less (fl_abs (fl_sub (C 2) (C (2 - 1)))) (1 / 2)"
    by (simp add: C_def)
  have f: "both_files ex_ext ?s2 (files ?w1) =
      [''out.vec'' \<mapsto> Text ''2 2\<newline>b 0.0 1.0\<newline>a 1.0 0.0\<newline>'',
       ''out2.vec'' \<mapsto> Text ''2 2\<newline>b 0.0 2.0\<newline>a 2.0 0.0\<newline>'']"
    by (subst ex_files)
      (simp_all add: ex_trainer2_def ex_trainer_def ex_ds2_def ex_ds_def ex_world_def)
  have "train ex_ext 5 (PyFloat (1 / 2)) 20 0 0 (ex_trainer2, ex_world) =
          Inr (S 2, (W 2)\<lparr>stdout := stdout (W 2) @ [Training_complete],
                          files := both_files ex_ext (S 2) (files (W 2))\<rparr>)"
    using convergence_stops_training [OF h1 h2 h3 h4 h5 h6 h7 sh ids] by blast
  then have "train ex_ext 5 (PyFloat (1 / 2)) 20 0 0 (ex_trainer2, ex_world) =
          Inr (?s2, ?w1\<lparr>stdout := stdout ?w1 @ [Training_complete],
                          files := both_files ex_ext ?s2 (files ?w1)\<rparr>)"
    by (simp add: S_def W_def)
  then have t: "train ex_ext 5 (PyFloat (1 / 2)) 20 0 0 (ex_trainer2, ex_world) =
       Inr (?s2,
            \<lparr>files = [''out.vec'' \<mapsto> Text ''2 2\<newline>b 0.0 1.0\<newline>a 1.0 0.0\<newline>'',
                      ''out2.vec'' \<mapsto> Text ''2 2\<newline>b 0.0 2.0\<newline>a 2.0 0.0\<newline>''],
             stdout = [Epoch_line 0 (Fin 4), Training_complete]\<rparr>)"
    by (simp only: f) (simp add: ex_world_def)
  have e2': "epoch_body ex_ext 20 0 0
        (ex_trainer2\<lparr>dataset := ex_ds2\<lparr>served := 1\<rparr>, loss_values := [Fin 4],
                     mean_loss_values := [Fin 4], epoch := 1\<rparr>, ?w1) = Inr (?s2, ?w1, Fin 4)"
    by (rule ex2_epoch2)
  from e1 n1 e2' y2 sh ids t show ?thesis by blast
qed

lemma ex_run2:
  assumes "\<And>a b. converged thr a b = False"
  shows "train ex_ext 2 thr 20 0 0 (ex_trainer, ex_world) =
     Inr (ex_trainer\<lparr>dataset := ex_ds\<lparr>served := 2\<rparr>, epoch := 2,
                      loss_values := [Fin 0, Fin 0], mean_loss_values := [Fin 0, Fin 0]\<rparr>,
          \<lparr>files = [''out.vec'' \<mapsto> Text ''2 2\<newline>b 0.0 1.0\<newline>a 1.0 0.0\<newline>'',
                    ''out2.vec'' \<mapsto> Text ''2 2\<newline>b 0.0 2.0\<newline>a 2.0 0.0\<newline>''],
           stdout = [Epoch_line 0 (Fin 0), Saving_model]\<rparr>)"
proof -
  let ?s1 = "ex_trainer\<lparr>dataset := ex_ds\<lparr>served := 1\<rparr>, loss_values := [Fin 0],
                      mean_loss_values := [Fin 0]\<rparr>"
  let ?w1 = "ex_world\<lparr>stdout := [Epoch_line 0 (Fin 0)]\<rparr>"
  let ?s1' = "?s1\<lparr>epoch := epoch ?s1 + 1\<rparr>"
  let ?s2 = "ex_trainer\<lparr>dataset := ex_ds\<lparr>served := 2\<rparr>, epoch := 1,
                      loss_values := [Fin 0, Fin 0], mean_loss_values := [Fin 0, Fin 0]\<rparr>"
  let ?s2' = "?s2\<lparr>epoch := epoch ?s2 + 1\<rparr>"
  have e1: "epoch_body ex_ext 20 0 0 (ex_trainer, ex_world) = Inr (?s1, ?w1, Fin 0)"
    by (rule ex_epoch1)
  have e2: "epoch_body ex_ext 20 0 0 (?s1', ?w1) = Inr (?s2, ?w1, Fin 0)"
    by (subst ex_epoch [where k = 1])
      (simp_all add: ex_trainer_def ex_ds_def ex_world_def np_mean_def last_n_def)
  note nc = assms
  have sh: "has_shape (model ?s2') 2 2" and ids: "valid_ids 2 (id2gene (dataset ?s2'))"
    using ex_shape by (simp_all add: ex_trainer_def valid_ids_def ex_ds_def)
  have f: "both_files ex_ext ?s2' (files ?w1) =
      [''out.vec'' \<mapsto> Text ''2 2\<newline>b 0.0 1.0\<newline>a 1.0 0.0\<newline>'',
       ''out2.vec'' \<mapsto> Text ''2 2\<newline>b 0.0 2.0\<newline>a 2.0 0.0\<newline>'']"
    by (subst ex_files) (simp_all add: ex_trainer_def ex_ds_def ex_world_def)
  have t0: "train_loop ex_ext 0 thr 20 0 0 (Fin 0) (?s2', ?w1) =
              Inr (?s2', ?w1\<lparr>stdout := stdout ?w1 @ [Saving_model],
                              files := both_files ex_ext ?s2' (files ?w1)\<rparr>)"
    by (subst train_loop.simps, subst export_both_valid [OF sh ids], subst ebind_Inr) (rule refl)
  have t1: "train_loop ex_ext (Suc 0) thr 20 0 0 (Fin 0) (?s1', ?w1) =
              Inr (?s2', ?w1\<lparr>stdout := stdout ?w1 @ [Saving_model],
                              files := both_files ex_ext ?s2' (files ?w1)\<rparr>)"
    by (subst train_loop.simps(2)) (simp only: e2 ebind_Inr prod.case nc if_False t0)
  have t2: "train_loop ex_ext (Suc (Suc 0)) thr 20 0 0 (Fin 0) (ex_trainer, ex_world) =
              Inr (?s2', ?w1\<lparr>stdout := stdout ?w1 @ [Saving_model],
                              files := both_files ex_ext ?s2' (files ?w1)\<rparr>)"
    by (subst train_loop.simps(2)) (simp only: e1 ebind_Inr prod.case nc if_False t1)
  have n: "nat 2 = Suc (Suc 0)" by simp
  show ?thesis
    unfolding train_def n t2 f
    by (simp add: ex_world_def ex_trainer_def)
qed

lemma ex_train2:
  "train ex_ext 2 PyNone 20 0 0 (ex_trainer, ex_world) =
     Inr (ex_trainer\<lparr>dataset := ex_ds\<lparr>served := 2\<rparr>, epoch := 2,
                      loss_values := [Fin 0, Fin 0], mean_loss_values := [Fin 0, Fin 0]\<rparr>,
          \<lparr>files = [''out.vec'' \<mapsto> Text ''2 2\<newline>b 0.0 1.0\<newline>a 1.0 0.0\<newline>'',
                    ''out2.vec'' \<mapsto> Text ''2 2\<newline>b 0.0 2.0\<newline>a 2.0 0.0\<newline>''],
           stdout = [Epoch_line 0 (Fin 0), Saving_model]\<rparr>)"
  by (rule ex_run2) (simp add: converged_def)

text \<open>
  C2 as stated fails for a threshold that is a number but not a float. With the int 1
  the first epoch of the instance ends with \<open>\<bar>0 - 0\<bar> < 1\<close>, yet \<open>train\<close> goes on to
  the second epoch and ends by exhausting the epochs, never printing the completion
  message: line 168 asks for \<^verbatim>\<open>type(threshold) == float\<close>.
\<close>

theorem int_threshold_counterexample:
  "epoch_body ex_ext 20 0 0 (ex_trainer, ex_world) =
     Inr (ex_trainer\<lparr>dataset := ex_ds\<lparr>served := 1\<rparr>, loss_values := [Fin 0],
                      mean_loss_values := [Fin 0]\<rparr>,
          ex_world\<lparr>stdout := [Epoch_line 0 (Fin 0)]\<rparr>, Fin 0)
   \<and> fl_less (fl_abs (fl_sub (Fin 0) (Fin 0))) 1
   \<and> train ex_ext 2 (PyInt 1) 20 0 0 (ex_trainer, ex_world) =
     Inr (ex_trainer\<lparr>dataset := ex_ds\<lparr>served := 2\<rparr>, epoch := 2,
                      loss_values := [Fin 0, Fin 0], mean_loss_values := [Fin 0, Fin 0]\<rparr>,
          \<lparr>files = [''out.vec'' \<mapsto> Text ''2 2\<newline>b 0.0 1.0\<newline>a 1.0 0.0\<newline>'',
                    ''out2.vec'' \<mapsto> Text ''2 2\<newline>b 0.0 2.0\<newline>a 2.0 0.0\<newline>''],
           stdout = [Epoch_line 0 (Fin 0), Saving_model]\<rparr>)"
proof -
  have "train ex_ext 2 (PyInt 1) 20 0 0 (ex_trainer, ex_world) =
     Inr (ex_trainer\<lparr>dataset := ex_ds\<lparr>served := 2\<rparr>, epoch := 2,
                      loss_values := [Fin 0, Fin 0], mean_loss_values := [Fin 0, Fin 0]\<rparr>,
          \<lparr>files = [''out.vec'' \<mapsto> Text ''2 2\<newline>b 0.0 1.0\<newline>a 1.0 0.0\<newline>'',
                    ''out2.vec'' \<mapsto> Text ''2 2\<newline>b 0.0 2.0\<newline>a 2.0 0.0\<newline>''],
           stdout = [Epoch_line 0 (Fin 0), Saving_model]\<rparr>)"
    by (rule ex_run2) (simp add: converged_def)
  with ex_epoch1 [of 0 0] show ?thesis by simp
qed

theorem shapes_and_loss_trace_witness:
  "has_shape (model ex_trainer) 2 2
   \<and> GeneVector_init ex_ext ex_ds ''out.vec'' 2 PyNone 1 100 ''cpu'' False = Inr ex_trainer
   \<and> loss_values ex_trainer = []
   \<and> (\<exists>st1. train_batch ex_ext 0 0 ex_trainer ([0, 0], [0, 1], [1, 0]) = Inr st1
          \<and> has_shape (model st1) 2 2 \<and> length (loss_values st1) = 1)
   \<and> (\<exists>st2 w2. train ex_ext 2 PyNone 20 0 0 (ex_trainer, ex_world) = Inr (st2, w2)
          \<and> has_shape (model st2) 2 2 \<and> served (dataset st2) = 2
          \<and> length (loss_values st2) = 2)"
proof -
  note t = shapes_and_loss_trace [OF ex_trainer_shape,
      where ext = ex_ext and alpha = 0 and beta = 0 and b = "([0, 0], [0, 1], [1, 0])"
        and epochs = 2 and threshold = PyNone and ui = 20 and w = ex_world
        and ds = ex_ds and out_file = "''out.vec''" and d = 2 and bsize = PyNone and gain = 1
        and c = 100 and dev = "''cpu''" and ortho = False]
  from t ex_init have c0: "loss_values ex_trainer = []"
    by blast
  have e: "ent (dataset ex_trainer) = [2, 2]"
    by (simp add: ex_trainer_def ex_ds_def)
  note b = ex_batch [OF ex_model_of e, of 0 0]
  from t b have one: "has_shape (model (ex_trainer\<lparr>loss_values := loss_values ex_trainer @ [Fin 0]\<rparr>)) 2 2
      \<and> length (loss_values (ex_trainer\<lparr>loss_values := loss_values ex_trainer @ [Fin 0]\<rparr>))
          = length (loss_values ex_trainer) + 1"
    by blast
  let ?s2 = "ex_trainer\<lparr>dataset := ex_ds\<lparr>served := 2\<rparr>, epoch := 2,
                      loss_values := [Fin 0, Fin 0], mean_loss_values := [Fin 0, Fin 0]\<rparr>"
  from t ex_train2 have run: "has_shape (model ?s2) 2 2
      \<and> length (loss_values ?s2) = length (loss_values ex_trainer)
            + (\<Sum>k = served (dataset ex_trainer)..<served (dataset ?s2).
                 length (sweeps (dataset ex_trainer) k (batch_size ex_trainer)))"
    by blast
  have c1: "\<exists>st1. train_batch ex_ext 0 0 ex_trainer ([0, 0], [0, 1], [1, 0]) = Inr st1
          \<and> has_shape (model st1) 2 2 \<and> length (loss_values st1) = 1"
    using b one by (simp add: ex_trainer_def)
  have c2: "\<exists>st2 w2. train ex_ext 2 PyNone 20 0 0 (ex_trainer, ex_world) = Inr (st2, w2)
          \<and> has_shape (model st2) 2 2 \<and> served (dataset st2) = 2
          \<and> length (loss_values st2) = 2"
    using ex_train2 run by simp
  from ex_trainer_shape ex_init c0 c1 c2 show ?thesis by blast
qed

theorem first_epoch_is_logged_witness:
  "GeneVector_init ex_ext ex_ds ''out.vec'' 2 PyNone 1 100 ''cpu'' False = Inr ex_trainer
   \<and> (0 :: int) < 20 \<and> (0 :: int) < 2
   \<and> epoch ex_trainer = 0
   \<and> (\<exists>st2 w2 st1 w1 curr_loss rest.
         train ex_ext 2 PyNone 20 0 0 (ex_trainer, ex_world) = Inr (st2, w2)
         \<and> epoch_body ex_ext 20 0 0 (ex_trainer, ex_world) = Inr (st1, w1, curr_loss)
         \<and> epoch st1 = 0
         \<and> stdout w1 = stdout ex_world @ [Epoch_line 0 (np_mean (last_n 30 (loss_values st1)))]
         \<and> stdout w2 = stdout w1 @ rest)"
proof -
  have h2: "(0 :: int) < 20" and h3: "(0 :: int) < 2"
    by simp_all
  from first_epoch_is_logged [OF ex_init h2 h3 ex_train2] ex_init ex_train2 h2 h3
  show ?thesis by blast
qed

subsection \<open>The orthogonality penalty\<close>

lemma sum_list_upt: "sum_list (map f [0..<n]) = (\<Sum>k<n. f k)" for f :: "nat \<Rightarrow> real"
  by (simp add: interv_sum_list_conv_sum_set_nat atLeast0LessThan)

text \<open>
  C7. On a model whose tables have shape V x D, the value \<^verbatim>\<open>t1\<close> of a batch is
  \<open>alpha\<close> times the sum, over all positions (r, c) with r different from c, of the
  square of the entry (r, c) of W_i W_j^T, the diagonal having been set to zero before
  squaring. If every off-diagonal entry of W_i W_j^T is zero, \<^verbatim>\<open>t1\<close> is zero, for
  every \<open>alpha\<close>.
\<close>

theorem orthogonality_penalty:
  assumes "has_shape m V D"
  shows "step2_t1 alpha (wi m) (wj m) =
           Inr (alpha * (\<Sum>r<V. \<Sum>c<V.
                  if r = c then 0
                  else (\<Sum>k<D. entry (wi m) r k * entry (wj m) c k) ^ 2))
     \<and> ((\<forall>r<V. \<forall>c<V. r \<noteq> c \<longrightarrow> (\<Sum>k<D. entry (wi m) r k * entry (wj m) c k) = 0)
          \<longrightarrow> step2_t1 alpha (wi m) (wj m) = Inr 0)"
proof -
  have sh: "nrows (wi m) = V" "ncols (wi m) = D" "nrows (wj m) = V" "ncols (wj m) = D"
    using assms by (simp_all add: has_shape_def)
  have sq: "(if r = c then 0 else x) ^ 2 = (if r = c then 0 else x ^ 2)" for r c :: nat and x :: real
    by simp
  have v: "step2_t1 alpha (wi m) (wj m) =
           Inr (alpha * (\<Sum>r<V. \<Sum>c<V.
                  if r = c then 0
                  else (\<Sum>k<D. entry (wi m) r k * entry (wj m) c k) ^ 2))"
    by (simp add: step2_t1_def matmul_def transposed_def fill_diagonal_def pow_def sum_all_def
        sh sum_list_upt sq cong: if_cong)
  have "(\<Sum>r<V. \<Sum>c<V. if r = c then 0
                  else (\<Sum>k<D. entry (wi m) r k * entry (wj m) c k) ^ 2) = 0"
    if "\<forall>r<V. \<forall>c<V. r \<noteq> c \<longrightarrow> (\<Sum>k<D. entry (wi m) r k * entry (wj m) c k) = 0"
    using that by (intro sum.neutral ballI) simp
  with v show ?thesis by simp
qed

theorem orthogonality_penalty_witness:
  "has_shape ex_model 2 2
   \<and> step2_t1 5 (wi ex_model) (wj ex_model) =
        Inr (5 * (\<Sum>r<2. \<Sum>c<2.
               if r = c then 0
               else (\<Sum>k<2. entry (wi ex_model) r k * entry (wj ex_model) c k) ^ 2))
   \<and> step2_t1 5 (wi ex_model) (wj ex_model) = Inr 0"
proof -
  have d: "\<forall>r<2. \<forall>c<2. r \<noteq> c \<longrightarrow> (\<Sum>k<2. entry (wi ex_model) r k * entry (wj ex_model) c k) = 0"
    by (simp add: ex_model_def GeneVectorModel_init_def ex_ext_def lessThan_Suc numeral_2_eq_2
        less_Suc_eq)
  from orthogonality_penalty [OF ex_shape, of 5] d ex_shape show ?thesis
    by blast
qed

subsection \<open>Construction and the device\<close>

text \<open>
  C5 (the code departs from the claim). The constructor compares the device with the
  string \<^verbatim>\<open>"cuda"\<close> only. For every other device, \<^verbatim>\<open>"mps"\<close> and \<^verbatim>\<open>"cuda:0"\<close> of the
  docstring among them, construction succeeds whatever the runtime offers, and the
  parameters stay where \<^verbatim>\<open>nn.Module\<close> put them, on the CPU.
\<close>

theorem init_checks_only_cuda:
  "dev \<noteq> ''cuda'' \<Longrightarrow>
     \<exists>st. GeneVector_init ext ds out_file d bsize gain c dev ortho = Inr st
          \<and> device st = dev \<and> placement (model st) = ''cpu''"
  by (simp add: GeneVector_init_def GeneVectorModel_init_def Let_def)

theorem init_checks_only_cuda_witness:
  "''mps'' \<noteq> ''cuda'' \<and> \<not> cuda_is_available ex_ext
   \<and> (\<exists>st. GeneVector_init ex_ext ex_ds ''out.vec'' 2 PyNone 1 100 ''mps'' False = Inr st
          \<and> device st = ''mps'' \<and> placement (model st) = ''cpu'')"
proof -
  have h: "''mps'' \<noteq> ''cuda''" by simp
  have "\<not> cuda_is_available ex_ext" by (simp add: ex_ext_def)
  with h init_checks_only_cuda [OF h, of ex_ext ex_ds "''out.vec''" 2 PyNone 1 100 False]
  show ?thesis by blast
qed

subsection \<open>Saving and loading\<close>

text \<open>
  C8 (the code departs from the claim). \<^verbatim>\<open>load\<close> reads the attribute \<^verbatim>\<open>gnn\<close>, which
  the constructor does not set: on a fresh trainer it raises \<^verbatim>\<open>AttributeError\<close>, also
  right after \<^verbatim>\<open>save\<close> wrote the blob to the same path, and the trained parameters are
  not restored.
\<close>

theorem load_raises_attribute_error:
  "GeneVector_init ext ds out_file d bsize gain c dev ortho = Inr fresh \<Longrightarrow>
     load fresh path (save trained path w) = Inl AttributeError"
  by (auto simp: GeneVector_init_def Let_def load_def split: if_splits)

theorem load_raises_attribute_error_witness:
  "GeneVector_init ex_ext ex_ds ''out.vec'' 2 PyNone 1 100 ''cpu'' False = Inr ex_trainer
   \<and> load ex_trainer ''model.pt'' (save ex_trainer ''model.pt'' ex_world) = Inl AttributeError"
  using load_raises_attribute_error [OF ex_init, of "''model.pt''" ex_trainer ex_world] ex_init
  by simp

end
